theory Spec2Isabelle
  imports Main "HOL-Library.AList"
begin

section \<open>Python values, exceptions and built-ins\<close>

text \<open>
  The plugin is two Python modules, \<^verbatim>\<open>hooks.py\<close> and \<^verbatim>\<open>views.py\<close>, running inside a
  Django host. A call that raises is a value \<open>Inl e\<close> of \<open>pyerror + 'a\<close>; a call that
  returns is \<open>Inr v\<close>.
\<close>

datatype pyerror =
    ImportError | ValueError | TypeError | KeyError | OverflowError
  | ZoneInfoNotFoundError | RecursionError | Http404 | DatabaseError

text \<open>
  A property bag (\<^verbatim>\<open>custom_properties\<close>) is a JSON object; its values are modelled over
  null, booleans, integers and strings. A dictionary is an association list in insertion
  order, read with \<open>map_of\<close> and written with \<open>AList.update\<close> (an existing key keeps its
  place, a new key goes last, as in a Python dict).
\<close>

datatype pv = PNone | PBool bool | PInt int | PStr string

type_synonym props = "(string \<times> pv) list"

text \<open>\<^verbatim>\<open>d.get(k)\<close>: the value, or \<^verbatim>\<open>None\<close> for a missing key.\<close>

definition dict_get :: "props \<Rightarrow> string \<Rightarrow> pv" where
  "dict_get d k = (case map_of d k of None \<Rightarrow> PNone | Some v \<Rightarrow> v)"

text \<open>\<^verbatim>\<open>d.get(k, default)\<close>.\<close>

definition dict_get_default :: "props \<Rightarrow> string \<Rightarrow> pv \<Rightarrow> pv" where
  "dict_get_default d k dflt = (case map_of d k of None \<Rightarrow> dflt | Some v \<Rightarrow> v)"

text \<open>\<^verbatim>\<open>x or {}\<close> for a bag that may be null.\<close>

definition or_empty :: "props option \<Rightarrow> props" where
  "or_empty p = (case p of None \<Rightarrow> [] | Some d \<Rightarrow> d)"

text \<open>Truth value testing (\<^verbatim>\<open>if x\<close>, \<^verbatim>\<open>not x\<close>).\<close>

fun truthy :: "pv \<Rightarrow> bool" where
  "truthy PNone = False"
| "truthy (PBool b) = b"
| "truthy (PInt n) = (n \<noteq> 0)"
| "truthy (PStr s) = (s \<noteq> [])"

definition is_digit :: "char \<Rightarrow> bool" where
  "is_digit c = (48 \<le> (of_char c :: nat) \<and> (of_char c :: nat) \<le> 57)"

definition digit_val :: "char \<Rightarrow> nat" where
  "digit_val c = of_char c - 48"

definition digit_char :: "nat \<Rightarrow> char" where
  "digit_char d = char_of (48 + d)"

text \<open>\<^verbatim>\<open>str(n)\<close> for an integer: decimal digits, a minus sign for a negative number.\<close>

fun str_nat :: "nat \<Rightarrow> string" where
  "str_nat n = (if n < 10 then [digit_char n] else str_nat (n div 10) @ [digit_char (n mod 10)])"

declare str_nat.simps [simp del]

definition str_int :: "int \<Rightarrow> string" where
  "str_int i = (if i < 0 then CHR ''-'' # str_nat (nat (- i)) else str_nat (nat i))"

fun py_str :: "pv \<Rightarrow> string" where
  "py_str PNone = ''None''"
| "py_str (PBool b) = (if b then ''True'' else ''False'')"
| "py_str (PInt n) = str_int n"
| "py_str (PStr s) = s"

text \<open>
  \<^verbatim>\<open>int(x)\<close>. A string is stripped of surrounding whitespace, may carry one sign, and is a
  run of decimal digits in which single underscores may separate digits; anything else
  raises \<^verbatim>\<open>ValueError\<close>. \<^verbatim>\<open>int(None)\<close> raises \<^verbatim>\<open>TypeError\<close>. The whitespace that
  \<^verbatim>\<open>int\<close> strips is, among the code points up to 255, tab to carriage return
  (9 to 13), the space (32), next line (133) and the no-break space (160); the separators
  28 to 31 are not stripped.
\<close>

definition is_space :: "char \<Rightarrow> bool" where
  "is_space c = ((9 \<le> (of_char c :: nat) \<and> (of_char c :: nat) \<le> 13)
     \<or> (of_char c :: nat) = 32 \<or> (of_char c :: nat) = 133 \<or> (of_char c :: nat) = 160)"

definition strip :: "string \<Rightarrow> string" where
  "strip s = rev (dropWhile is_space (rev (dropWhile is_space s)))"

fun int_digits :: "nat \<Rightarrow> string \<Rightarrow> nat option" where
  "int_digits acc [] = None"
| "int_digits acc [c] = (if is_digit c then Some (acc * 10 + digit_val c) else None)"
| "int_digits acc (c # d # cs) =
     (if \<not> is_digit c then None
      else if d = CHR ''_'' then int_digits (acc * 10 + digit_val c) cs
      else int_digits (acc * 10 + digit_val c) (d # cs))"

definition int_of_str :: "string \<Rightarrow> pyerror + int" where
  "int_of_str s =
     (case strip s of
        [] \<Rightarrow> Inl ValueError
      | c # cs \<Rightarrow>
          if c = CHR ''-'' then (case int_digits 0 cs of None \<Rightarrow> Inl ValueError | Some n \<Rightarrow> Inr (- int n))
          else if c = CHR ''+'' then (case int_digits 0 cs of None \<Rightarrow> Inl ValueError | Some n \<Rightarrow> Inr (int n))
          else (case int_digits 0 (c # cs) of None \<Rightarrow> Inl ValueError | Some n \<Rightarrow> Inr (int n)))"

fun py_int :: "pv \<Rightarrow> pyerror + int" where
  "py_int PNone = Inl TypeError"
| "py_int (PBool b) = Inr (if b then 1 else 0)"
| "py_int (PInt n) = Inr n"
| "py_int (PStr s) = int_of_str s"

text \<open>\<^verbatim>\<open>s.rstrip(chars)\<close>: drops every trailing character that occurs in \<open>chars\<close>.\<close>

definition rstrip :: "string \<Rightarrow> string \<Rightarrow> string" where
  "rstrip chars s = rev (dropWhile (\<lambda>c. c \<in> set chars) (rev s))"

text \<open>\<^verbatim>\<open>s.startswith(p)\<close>.\<close>

definition startswith :: "string \<Rightarrow> string \<Rightarrow> bool" where
  "startswith s p = (take (length p) s = p)"

text \<open>
  \<^verbatim>\<open>s.replace(old, new)\<close>: every non-overlapping occurrence, from the left. For an empty
  \<open>old\<close> Python puts \<open>new\<close> before every character and at the end.
\<close>

fun replace_from :: "string \<Rightarrow> string \<Rightarrow> string \<Rightarrow> string" where
  "replace_from old new [] = []"
| "replace_from old new (c # cs) =
     (if old \<noteq> [] \<and> startswith (c # cs) old
      then new @ replace_from old new (drop (length old) (c # cs))
      else c # replace_from old new cs)"

definition str_replace :: "string \<Rightarrow> string \<Rightarrow> string \<Rightarrow> string" where
  "str_replace old new s =
     (if old = [] then new @ concat (map (\<lambda>c. c # new) s) else replace_from old new s)"

section \<open>The host's relational store\<close>

text \<open>
  The plugin reads the host's Django models and never writes them. Each table is the list
  of its rows in primary-key order, which is the order \<^verbatim>\<open>.first()\<close> uses on a queryset
  with no ordering of its own. The user table is keyed by the user name, which Django
  keeps unique.
\<close>

record m3u_account =
  account_type :: string
  server_url :: string
  account_username :: string
  account_password :: string
  account_user_agent :: string

record stream =
  stream_pk :: int
  stream_properties :: "props option"
  stream_m3u_account :: "m3u_account option"

record channel =
  channel_pk :: int
  channel_name :: string
  channel_user_level :: int
  channel_uuid :: string

record user =
  user_level :: int
  user_properties :: "props option"
  django_password :: string
  channel_profiles :: "int list"

record channelstream =
  cs_channel :: int
  cs_stream :: int
  cs_order :: int

record membership =
  ms_channel :: int
  ms_profile :: int
  ms_enabled :: bool

record store =
  user_table :: "(string \<times> user) list"
  channel_table :: "channel list"
  stream_table :: "stream list"
  channelstream_table :: "channelstream list"
  membership_table :: "membership list"

text \<open>\<^verbatim>\<open>queryset.first()\<close>: the first row, or \<^verbatim>\<open>None\<close>.\<close>

definition qs_first :: "'a list \<Rightarrow> 'a option" where
  "qs_first rows = (case rows of [] \<Rightarrow> None | r # _ \<Rightarrow> Some r)"

text \<open>
  \<^verbatim>\<open>Stream.objects.filter(custom_properties__stream_id=s, m3u_account__account_type='XC')\<close>:
  the streams whose bag holds the string \<open>s\<close> under \<^verbatim>\<open>stream_id\<close> and whose account is of
  type XC.
\<close>

definition is_xc_stream_with_id :: "string \<Rightarrow> stream \<Rightarrow> bool" where
  "is_xc_stream_with_id s st =
     ((case stream_properties st of None \<Rightarrow> False | Some p \<Rightarrow> map_of p ''stream_id'' = Some (PStr s))
      \<and> (case stream_m3u_account st of None \<Rightarrow> False | Some a \<Rightarrow> account_type a = ''XC''))"

definition xc_streams_with_id :: "store \<Rightarrow> string \<Rightarrow> stream list" where
  "xc_streams_with_id db s = filter (is_xc_stream_with_id s) (stream_table db)"

text \<open>\<^verbatim>\<open>stream.channels\<close>: the channels linked to the stream.\<close>

definition stream_channels :: "store \<Rightarrow> stream \<Rightarrow> channel list" where
  "stream_channels db st =
     filter (\<lambda>c. list_ex (\<lambda>r. cs_channel r = channel_pk c \<and> cs_stream r = stream_pk st)
                   (channelstream_table db))
       (channel_table db)"

text \<open>\<^verbatim>\<open>channel.streams.order_by('channelstream__order')\<close>: the channel's streams by ordinal.\<close>

definition channel_streams_by_order :: "store \<Rightarrow> channel \<Rightarrow> stream list" where
  "channel_streams_by_order db c =
     concat (map (\<lambda>r. filter (\<lambda>st. stream_pk st = cs_stream r) (stream_table db))
               (sort_key cs_order (filter (\<lambda>r. cs_channel r = channel_pk c) (channelstream_table db))))"

text \<open>\<^verbatim>\<open>Channel.objects.filter(id=n)\<close>.\<close>

definition channels_with_id :: "store \<Rightarrow> int \<Rightarrow> channel list" where
  "channels_with_id db n = filter (\<lambda>c. channel_pk c = n) (channel_table db)"

section \<open>\<^verbatim>\<open>views.py\<close>: timestamp conversion\<close>

text \<open>
  \<^verbatim>\<open>datetime.strptime(timestamp, "%Y-%m-%d:%H-%M")\<close>. The format compiles to a regular
  expression whose fields are alternatives tried in order
  (\<^verbatim>\<open>%Y\<close> four digits; \<^verbatim>\<open>%m\<close> \<^verbatim>\<open>1[0-2]|0[1-9]|[1-9]\<close>; \<^verbatim>\<open>%d\<close>
  \<^verbatim>\<open>3[01]|[12]\d|0[1-9]|[1-9]| [1-9]\<close>; \<^verbatim>\<open>%H\<close> \<^verbatim>\<open>2[0-3]|[0-1]\d|\d\<close>; \<^verbatim>\<open>%M\<close>
  \<^verbatim>\<open>[0-5]\d|\d\<close>). A field parser returns every way the field can match a prefix of the
  input, in the matcher's order, with the rest of the input; the first way through all
  fields is the match, and input left over after it raises \<^verbatim>\<open>ValueError\<close>.
\<close>

type_synonym 'a field = "string \<Rightarrow> ('a \<times> string) list"

definition lit :: "char \<Rightarrow> unit field" where
  "lit c s = (case s of [] \<Rightarrow> [] | x # xs \<Rightarrow> if x = c then [((), xs)] else [])"

definition two_digits :: "(nat \<Rightarrow> nat \<Rightarrow> bool) \<Rightarrow> nat field" where
  "two_digits ok s =
     (case s of
        a # b # xs \<Rightarrow>
          if is_digit a \<and> is_digit b \<and> ok (digit_val a) (digit_val b)
          then [(digit_val a * 10 + digit_val b, xs)] else []
      | _ \<Rightarrow> [])"

definition one_digit :: "(nat \<Rightarrow> bool) \<Rightarrow> nat field" where
  "one_digit ok s =
     (case s of
        a # xs \<Rightarrow> if is_digit a \<and> ok (digit_val a) then [(digit_val a, xs)] else []
      | _ \<Rightarrow> [])"

definition field_Y :: "nat field" where
  "field_Y s =
     (case s of
        a # b # c # d # xs \<Rightarrow>
          if is_digit a \<and> is_digit b \<and> is_digit c \<and> is_digit d
          then [(digit_val a * 1000 + digit_val b * 100 + digit_val c * 10 + digit_val d, xs)]
          else []
      | _ \<Rightarrow> [])"

definition field_m :: "nat field" where
  "field_m s =
     two_digits (\<lambda>a b. a = 1 \<and> b \<le> 2) s @ two_digits (\<lambda>a b. a = 0 \<and> 1 \<le> b) s
       @ one_digit (\<lambda>a. 1 \<le> a) s"

definition field_d :: "nat field" where
  "field_d s =
     two_digits (\<lambda>a b. a = 3 \<and> b \<le> 1) s @ two_digits (\<lambda>a b. 1 \<le> a \<and> a \<le> 2) s
       @ two_digits (\<lambda>a b. a = 0 \<and> 1 \<le> b) s @ one_digit (\<lambda>a. 1 \<le> a) s
       @ concat (map (\<lambda>(u, r). one_digit (\<lambda>a. 1 \<le> a) r) (lit CHR '' '' s))"

definition field_H :: "nat field" where
  "field_H s =
     two_digits (\<lambda>a b. a = 2 \<and> b \<le> 3) s @ two_digits (\<lambda>a b. a \<le> 1) s
       @ one_digit (\<lambda>a. True) s"

definition field_M :: "nat field" where
  "field_M s = two_digits (\<lambda>a b. a \<le> 5) s @ one_digit (\<lambda>a. True) s"

text \<open>Sequencing two parsers: every match of the first, continued by every match of the second.\<close>

definition then_field :: "'a field \<Rightarrow> ('a \<Rightarrow> 'b field) \<Rightarrow> 'b field" where
  "then_field p q s = concat (map (\<lambda>(a, r). q a r) (p s))"

record datetime =
  dt_year :: nat
  dt_month :: nat
  dt_day :: nat
  dt_hour :: nat
  dt_minute :: nat
  dt_second :: nat

definition timestamp_matches :: "datetime field" where
  "timestamp_matches =
     then_field field_Y (\<lambda>Y. then_field (lit CHR ''-'') (\<lambda>_.
     then_field field_m (\<lambda>m. then_field (lit CHR ''-'') (\<lambda>_.
     then_field field_d (\<lambda>d. then_field (lit CHR '':'') (\<lambda>_.
     then_field field_H (\<lambda>H. then_field (lit CHR ''-'') (\<lambda>_.
     then_field field_M (\<lambda>M r.
       [(\<lparr>dt_year = Y, dt_month = m, dt_day = d, dt_hour = H, dt_minute = M, dt_second = 0\<rparr>, r)])))))))))"

definition is_leap :: "nat \<Rightarrow> bool" where
  "is_leap y = (y mod 4 = 0 \<and> (y mod 100 \<noteq> 0 \<or> y mod 400 = 0))"

definition days_in_month :: "nat \<Rightarrow> nat \<Rightarrow> nat" where
  "days_in_month y m =
     (if m = 2 then (if is_leap y then 29 else 28)
      else if m = 4 \<or> m = 6 \<or> m = 9 \<or> m = 11 then 30 else 31)"

definition strptime :: "string \<Rightarrow> pyerror + datetime" where
  "strptime s =
     (case timestamp_matches s of
        [] \<Rightarrow> Inl ValueError
      | (dt, r) # _ \<Rightarrow>
          if r \<noteq> [] then Inl ValueError
          else if dt_year dt < 1 \<or> days_in_month (dt_year dt) (dt_month dt) < dt_day dt
          then Inl ValueError
          else Inr dt)"

text \<open>
  The proleptic Gregorian ordinal of a date (1 for 0001-01-01) and its inverse, as
  \<^verbatim>\<open>datetime\<close> computes them.
\<close>

definition days_before_year :: "nat \<Rightarrow> nat" where
  "days_before_year y = (y - 1) * 365 + (y - 1) div 4 - (y - 1) div 100 + (y - 1) div 400"

definition days_before_month :: "nat \<Rightarrow> nat \<Rightarrow> nat" where
  "days_before_month y m = sum_list (map (days_in_month y) [1..<m])"

definition ymd2ord :: "nat \<Rightarrow> nat \<Rightarrow> nat \<Rightarrow> nat" where
  "ymd2ord y m d = days_before_year y + days_before_month y m + d"

definition ord2ymd :: "nat \<Rightarrow> nat \<times> nat \<times> nat" where
  "ord2ymd ordinal =
     (let n = ordinal - 1;
          n400 = n div 146097; n = n mod 146097;
          n100 = n div 36524; n = n mod 36524;
          n4 = n div 1461; n = n mod 1461;
          n1 = n div 365; n = n mod 365;
          y = n400 * 400 + 1 + n100 * 100 + n4 * 4 + n1
      in if n1 = 4 \<or> n100 = 4 then (y - 1, 12, 31)
         else
           let leapyear = (n1 = 3 \<and> (n4 \<noteq> 24 \<or> n100 = 3));
               month = (n + 50) div 32;
               preceding = days_before_month (if leapyear then 4 else 1) month
           in if preceding > n
              then (y, month - 1, n - days_before_month (if leapyear then 4 else 1) (month - 1) + 1)
              else (y, month, n - preceding + 1))"

text \<open>
  The zone database is outside the plugin: \<open>tz key\<close> is \<open>None\<close> where \<^verbatim>\<open>ZoneInfo(key)\<close>
  raises, and otherwise the zone's offset from UTC, in seconds, at a UTC instant given in
  seconds since 0001-01-01 00:00.
\<close>

type_synonym zones = "string \<Rightarrow> (int \<Rightarrow> int) option"

definition utc_seconds :: "datetime \<Rightarrow> int" where
  "utc_seconds dt =
     ((int (ymd2ord (dt_year dt) (dt_month dt) (dt_day dt)) - 1) * 24 + int (dt_hour dt)) * 3600
       + int (dt_minute dt) * 60 + int (dt_second dt)"

text \<open>
  \<^verbatim>\<open>astimezone\<close>: the wall clock of the target zone at the same instant; a result before
  year 1 or after year 9999 raises \<^verbatim>\<open>OverflowError\<close>.
\<close>

definition astimezone :: "(int \<Rightarrow> int) \<Rightarrow> datetime \<Rightarrow> pyerror + datetime" where
  "astimezone offset dt =
     (let t = utc_seconds dt + offset (utc_seconds dt);
          days = t div 86400; secs = nat (t mod 86400)
      in if days < 0 \<or> 3652059 \<le> days then Inl OverflowError
         else
           (case ord2ymd (nat days + 1) of
              (y, m, d) \<Rightarrow>
                Inr \<lparr>dt_year = y, dt_month = m, dt_day = d, dt_hour = secs div 3600,
                     dt_minute = (secs mod 3600) div 60, dt_second = secs mod 60\<rparr>))"

definition pad2 :: "nat \<Rightarrow> string" where
  "pad2 n = [digit_char (n div 10 mod 10), digit_char (n mod 10)]"

text \<open>
  \<^verbatim>\<open>local_time.strftime("%Y-%m-%d:%H-%M")\<close>. The C library behind it prints the year
  as a plain decimal number, without padding, and the other fields with two digits.
\<close>

definition strftime :: "datetime \<Rightarrow> string" where
  "strftime dt =
     str_nat (dt_year dt) @ ''-'' @ pad2 (dt_month dt) @ ''-'' @ pad2 (dt_day dt) @ '':''
       @ pad2 (dt_hour dt) @ ''-'' @ pad2 (dt_minute dt)"

text \<open>
  The body of the \<^verbatim>\<open>try\<close> of \<^verbatim>\<open>_convert_timestamp_to_local\<close>: parse, attach
  \<^verbatim>\<open>ZoneInfo("UTC")\<close>, convert to \<^verbatim>\<open>ZoneInfo(timezone_str)\<close>, format.
\<close>

definition convert_timestamp_try :: "zones \<Rightarrow> string \<Rightarrow> string \<Rightarrow> pyerror + string" where
  "convert_timestamp_try tz timestamp timezone_str =
     (case strptime timestamp of
        Inl e \<Rightarrow> Inl e
      | Inr utc_time \<Rightarrow>
          (case tz ''UTC'' of
             None \<Rightarrow> Inl ZoneInfoNotFoundError
           | Some _ \<Rightarrow>
               (case tz timezone_str of
                  None \<Rightarrow> Inl ZoneInfoNotFoundError
                | Some offset \<Rightarrow>
                    (case astimezone offset utc_time of
                       Inl e \<Rightarrow> Inl e
                     | Inr local_time \<Rightarrow> Inr (strftime local_time)))))"

text \<open>\<^verbatim>\<open>_convert_timestamp_to_local\<close>: \<^verbatim>\<open>except Exception\<close> returns the timestamp as given.\<close>

definition convert_timestamp_to_local :: "zones \<Rightarrow> string \<Rightarrow> string \<Rightarrow> string" where
  "convert_timestamp_to_local tz timestamp timezone_str =
     (case convert_timestamp_try tz timestamp timezone_str of
        Inl e \<Rightarrow> timestamp
      | Inr result \<Rightarrow> result)"

section \<open>\<^verbatim>\<open>views.py\<close>: the timeshift handler\<close>

text \<open>
  What a handler hands back to Django: one of Django's response classes with its body, a
  REST framework \<^verbatim>\<open>Response({"error": msg}, status=n)\<close>, or whatever a host function
  returned. A streaming response carries the status, the content type, the headers set on
  it and the chunks its generator yields.
\<close>

datatype response =
    HttpResponseForbidden string
  | HttpResponseBadRequest string
  | StreamingHttpResponse nat string "(string \<times> string) list" "string list"
  | ErrorResponse string nat
  | HostResponse string

text \<open>
  The provider is reached by \<^verbatim>\<open>requests.get(url, headers=headers, stream=True, timeout=10)\<close>.
  The call and what comes back are data: the handler returns, next to its result, the list
  of outbound calls it made.
\<close>

record http_get =
  get_url :: string
  get_headers :: "(string \<times> string) list"
  get_stream :: bool
  get_timeout :: nat

record upstream_response =
  status_code :: nat
  response_headers :: "(string \<times> string) list"
  response_chunks :: "string list"

text \<open>
  An outbound call answers, or raises one of the \<^verbatim>\<open>requests\<close> exceptions (named by the
  first \<^verbatim>\<open>except\<close> clause of \<^verbatim>\<open>_proxy_stream\<close> that takes it), or raises something else.
\<close>

datatype requests_exception = Timeout | ConnectionError | RequestException

datatype upstream_reply =
    Replied upstream_response
  | Failed requests_exception
  | Crashed pyerror

type_synonym upstream = "http_get \<Rightarrow> upstream_reply"

record request =
  http_range :: "string option"

definition to_lower :: "char \<Rightarrow> char" where
  "to_lower c = (if 65 \<le> (of_char c :: nat) \<and> (of_char c :: nat) \<le> 90
                 then char_of ((of_char c :: nat) + 32) else c)"

text \<open>The headers of a \<^verbatim>\<open>requests\<close> response are looked up without regard to case.\<close>

definition header_get :: "(string \<times> string) list \<Rightarrow> string \<Rightarrow> string option" where
  "header_get hs k = map_of (map (\<lambda>(n, v). (map to_lower n, v)) hs) (map to_lower k)"

text \<open>The loop that copies the seek headers a response has onto the streaming response.\<close>

fun copy_headers :: "(string \<times> string) list \<Rightarrow> string list \<Rightarrow> (string \<times> string) list \<Rightarrow> (string \<times> string) list" where
  "copy_headers hs [] out = out"
| "copy_headers hs (h # rest) out =
     (case header_get hs h of
        None \<Rightarrow> copy_headers hs rest out
      | Some v \<Rightarrow> copy_headers hs rest (AList.update h v out))"

text \<open>\<^verbatim>\<open>_proxy_stream(request, url, user_agent)\<close>.\<close>

definition proxy_stream :: "upstream \<Rightarrow> request \<Rightarrow> string \<Rightarrow> string \<Rightarrow> (pyerror + response) \<times> http_get list" where
  "proxy_stream up req url user_agent =
     (let headers = [(''User-Agent'', user_agent)];
          headers = (case http_range req of
                       None \<Rightarrow> headers
                     | Some r \<Rightarrow> if r \<noteq> [] then AList.update ''Range'' r headers else headers);
          call = \<lparr>get_url = url, get_headers = headers, get_stream = True, get_timeout = 10\<rparr>
      in (case up call of
            Replied r \<Rightarrow>
              if status_code r \<noteq> 200 \<and> status_code r \<noteq> 206
              then Inr (HttpResponseBadRequest (''Provider error: '' @ str_nat (status_code r)))
              else Inr (StreamingHttpResponse (status_code r)
                         (case header_get (response_headers r) ''Content-Type'' of
                            None \<Rightarrow> ''video/mp2t'' | Some t \<Rightarrow> t)
                         (copy_headers (response_headers r)
                            [''Content-Length'', ''Content-Range'', ''Accept-Ranges''] [])
                         (filter (\<lambda>chunk. chunk \<noteq> []) (response_chunks r)))
          | Failed Timeout \<Rightarrow> Inr (HttpResponseBadRequest ''Provider timeout'')
          | Failed ConnectionError \<Rightarrow> Inr (HttpResponseBadRequest ''Provider connection error'')
          | Failed RequestException \<Rightarrow> Inr (HttpResponseBadRequest ''Provider connection error'')
          | Crashed e \<Rightarrow> Inl e,
          [call]))"

text \<open>
  \<^verbatim>\<open>_authenticate_user(username, password)\<close>: the user, or \<^verbatim>\<open>None\<close>.
  \<^verbatim>\<open>User.objects.get\<close> raises \<^verbatim>\<open>DoesNotExist\<close> for an unknown name, which the function
  catches.
\<close>

definition authenticate_user :: "store \<Rightarrow> string \<Rightarrow> string \<Rightarrow> user option" where
  "authenticate_user db uname password =
     (case map_of (user_table db) uname of
        None \<Rightarrow> None
      | Some u \<Rightarrow>
          (let xc_password = dict_get (or_empty (user_properties u)) ''xc_password''
           in if \<not> truthy xc_password then None
              else if xc_password \<noteq> PStr password then None
              else Some u))"

text \<open>
  \<^verbatim>\<open>_find_channel_by_provider_stream_id(provider_stream_id)\<close>: the pair
  \<^verbatim>\<open>(channel, stream)\<close>, or \<open>None\<close> for the pair \<^verbatim>\<open>(None, None)\<close>.
\<close>

definition find_channel_by_provider_stream_id :: "store \<Rightarrow> string \<Rightarrow> (channel \<times> stream) option" where
  "find_channel_by_provider_stream_id db provider_stream_id =
     (case qs_first (xc_streams_with_id db provider_stream_id) of
        None \<Rightarrow> None
      | Some st \<Rightarrow>
          (case qs_first (stream_channels db st) of
             None \<Rightarrow> None
           | Some ch \<Rightarrow> Some (ch, st)))"

text \<open>
  The names bound at the top level of \<^verbatim>\<open>hooks.py\<close>: its two imports, the logger, the four
  saved originals and its nine functions.
\<close>

definition hooks_globals :: "string list" where
  "hooks_globals =
     [''re'', ''logging'', ''logger'',
      ''_original_xc_get_live_streams'', ''_original_stream_xc'', ''_original_url_callbacks'',
      ''_original_resolve'',
      ''_is_plugin_enabled'', ''install_hooks'', ''uninstall_hooks'',
      ''_patch_xc_get_live_streams'', ''_restore_xc_get_live_streams'',
      ''_patch_stream_xc'', ''_restore_stream_xc'',
      ''_patch_url_resolver'', ''_restore_url_resolver'']"

text \<open>
  \<^verbatim>\<open>from .hooks import name\<close> inside the handler. The module it names is a parameter of
  the handler: the list of names the module binds, and what the two imported names would
  stand for where a module binds them (\<open>catchup\<close> for \<^verbatim>\<open>_has_catchup_support(props)\<close>,
  which returns a pair, and \<open>config\<close> for \<^verbatim>\<open>_get_plugin_config()\<close>, which returns a
  dictionary). A name the module does not bind raises \<^verbatim>\<open>ImportError\<close>.
\<close>

record hooks_module =
  module_names :: "string list"
  catchup :: "props \<Rightarrow> pyerror + (bool \<times> int)"
  config :: "pyerror + (string \<times> string) list"

definition import_from :: "hooks_module \<Rightarrow> string \<Rightarrow> pyerror + unit" where
  "import_from m name = (if name \<in> set (module_names m) then Inr () else Inl ImportError)"

text \<open>
  The substitution loop of step 7: each placeholder \<^verbatim>\<open>{key}\<close> of the template is replaced
  by its value, in the order the dictionary lists them.
\<close>

definition substitute :: "(string \<times> string) list \<Rightarrow> string \<Rightarrow> string" where
  "substitute placeholders template =
     fold (\<lambda>(k, v) url. str_replace (''{'' @ k @ ''}'') v url) placeholders template"

text \<open>Steps 6 to 9 of \<^verbatim>\<open>timeshift_proxy\<close>: time zone, URL, user agent, proxy.\<close>

definition build_and_proxy :: "hooks_module \<Rightarrow> zones \<Rightarrow> upstream \<Rightarrow> request \<Rightarrow> string \<Rightarrow> props \<Rightarrow> m3u_account \<Rightarrow> (pyerror + response) \<times> http_get list" where
  "build_and_proxy hooks tz up req timestamp props acc =
     (case import_from hooks ''_get_plugin_config'' of
        Inl e \<Rightarrow> (Inl e, [])
      | Inr _ \<Rightarrow>
     (case config hooks of
        Inl e \<Rightarrow> (Inl e, [])
      | Inr plugin_config \<Rightarrow>
     (case map_of plugin_config ''timezone'' of
        None \<Rightarrow> (Inl KeyError, [])
      | Some timezone_str \<Rightarrow>
     (let local_timestamp = convert_timestamp_to_local tz timestamp timezone_str
      in
     (case map_of plugin_config ''catchup_url_template'' of
        None \<Rightarrow> (Inl KeyError, [])
      | Some url_template \<Rightarrow>
     (let placeholders =
            [(''server.url'', rstrip ''/'' (server_url acc)),
             (''XC.username'', account_username acc),
             (''XC.password'', account_password acc),
             (''stream_id'', py_str (dict_get props ''stream_id'')),
             (''program.starttime'', local_timestamp),
             (''program.duration'', ''120'')];
          timeshift_url = substitute placeholders url_template
      in proxy_stream up req timeshift_url (account_user_agent acc)))))))"

text \<open>Steps 4 and 5: the feature check and the provider check, then the rest.\<close>

definition feature_check :: "hooks_module \<Rightarrow> zones \<Rightarrow> upstream \<Rightarrow> request \<Rightarrow> string \<Rightarrow> stream \<Rightarrow> (pyerror + response) \<times> http_get list" where
  "feature_check hooks tz up req timestamp st =
     (case import_from hooks ''_has_catchup_support'' of
        Inl e \<Rightarrow> (Inl e, [])
      | Inr _ \<Rightarrow>
     (let props = or_empty (stream_properties st)
      in
     (case catchup hooks props of
        Inl e \<Rightarrow> (Inl e, [])
      | Inr (has_catchup, _) \<Rightarrow>
          if \<not> has_catchup
          then (Inr (HttpResponseBadRequest ''Catchup/timeshift not supported for this channel''), [])
          else
            (case stream_m3u_account st of
               None \<Rightarrow> (Inr (HttpResponseBadRequest ''Channel not from Xtream Codes provider''), [])
             | Some acc \<Rightarrow>
                 if account_type acc \<noteq> ''XC''
                 then (Inr (HttpResponseBadRequest ''Channel not from Xtream Codes provider''), [])
                 else build_and_proxy hooks tz up req timestamp props acc))))"

text \<open>
  \<^verbatim>\<open>timeshift_proxy(request, username, password, stream_id, timestamp, duration)\<close>: steps 1
  to 3 (authenticate, find the channel, check the access level), then the rest.
\<close>

definition timeshift_proxy :: "hooks_module \<Rightarrow> zones \<Rightarrow> store \<Rightarrow> upstream \<Rightarrow> request \<Rightarrow> string \<Rightarrow> string \<Rightarrow> string \<Rightarrow> string \<Rightarrow> string \<Rightarrow> (pyerror + response) \<times> http_get list" where
  "timeshift_proxy hooks tz db up req uname password stream_id timestamp duration =
     (let provider_stream_id = rstrip ''.ts'' duration
      in
     (case authenticate_user db uname password of
        None \<Rightarrow> (Inr (HttpResponseForbidden ''Invalid credentials''), [])
      | Some usr \<Rightarrow>
     (case find_channel_by_provider_stream_id db provider_stream_id of
        None \<Rightarrow> (Inl Http404, [])
      | Some (ch, st) \<Rightarrow>
          if user_level usr < channel_user_level ch
          then (Inr (HttpResponseForbidden ''Access denied''), [])
          else feature_check hooks tz up req timestamp st)))"

text \<open>The module the handler imports from in this repository: \<^verbatim>\<open>hooks.py\<close> as it is.\<close>

definition hooks_py :: "(props \<Rightarrow> pyerror + (bool \<times> int)) \<Rightarrow> (pyerror + (string \<times> string) list) \<Rightarrow> hooks_module" where
  "hooks_py c g = \<lparr>module_names = hooks_globals, catchup = c, config = g\<rparr>"

section \<open>\<^verbatim>\<open>hooks.py\<close>: the wrappers\<close>

text \<open>
  \<^verbatim>\<open>_is_plugin_enabled()\<close>. Its argument is what reading
  \<^verbatim>\<open>PluginConfig.objects.get(key='dispatcharr_timeshift').enabled\<close> gives at the moment of
  the call: the flag, or the exception the read raises.
\<close>

definition is_plugin_enabled :: "pyerror + bool \<Rightarrow> bool" where
  "is_plugin_enabled rd = (case rd of Inl e \<Rightarrow> False | Inr enabled \<Rightarrow> enabled)"

subsection \<open>The catalog listing\<close>

text \<open>
  \<^verbatim>\<open>Channel.objects.filter(id=v)\<close> for a value read from an entry: \<^verbatim>\<open>None\<close> selects no
  row; any other value goes through \<^verbatim>\<open>int\<close>, which may raise.
\<close>

definition channels_with_id_value :: "store \<Rightarrow> pv \<Rightarrow> pyerror + channel list" where
  "channels_with_id_value db v =
     (if v = PNone then Inr []
      else (case py_int v of Inl e \<Rightarrow> Inl e | Inr n \<Rightarrow> Inr (channels_with_id db n)))"

text \<open>
  One turn of the loop of \<^verbatim>\<open>patched_xc_get_live_streams\<close> over a catalog entry: how the
  turn ended, and the entry as it is afterwards. The entry is a dictionary that the loop
  writes in place, so what was written before an exception stays written.
\<close>

datatype decoration = Decorated | No_channel | No_first_stream | Caught pyerror

definition decorate_entry :: "store \<Rightarrow> props \<Rightarrow> decoration \<times> props" where
  "decorate_entry db stream_data =
     (case channels_with_id_value db (dict_get stream_data ''stream_id'') of
        Inl e \<Rightarrow> (Caught e, stream_data)
      | Inr chans \<Rightarrow>
     (case qs_first chans of
        None \<Rightarrow> (No_channel, stream_data)
      | Some ch \<Rightarrow>
     (case qs_first (channel_streams_by_order db ch) of
        None \<Rightarrow> (No_first_stream, stream_data)
      | Some first_stream \<Rightarrow>
     (let props = or_empty (stream_properties first_stream)
      in
     (case py_int (dict_get_default props ''tv_archive'' (PInt 0)) of
        Inl e \<Rightarrow> (Caught e, stream_data)
      | Inr archive \<Rightarrow>
     (let stream_data1 = AList.update ''tv_archive'' (PInt archive) stream_data
      in
     (case py_int (dict_get_default props ''tv_archive_duration'' (PInt 0)) of
        Inl e \<Rightarrow> (Caught e, stream_data1)
      | Inr duration \<Rightarrow>
     (let stream_data2 = AList.update ''tv_archive_duration'' (PInt duration) stream_data1;
          provider_stream_id = dict_get props ''stream_id''
      in if truthy provider_stream_id
         then (case py_int provider_stream_id of
                 Inl e \<Rightarrow> (Caught e, stream_data2)
               | Inr n \<Rightarrow> (Decorated, AList.update ''stream_id'' (PInt n) stream_data2))
         else (Decorated, stream_data2)))))))))"

fun decorate_all :: "store \<Rightarrow> props list \<Rightarrow> props list" where
  "decorate_all db [] = []"
| "decorate_all db (stream_data # rest) = snd (decorate_entry db stream_data) # decorate_all db rest"

text \<open>
  \<^verbatim>\<open>patched_xc_get_live_streams\<close>. \<open>streams\<close> is what the original function returned for
  the same arguments (or raised, outside any \<^verbatim>\<open>try\<close>).
\<close>

definition patched_xc_get_live_streams :: "pyerror + bool \<Rightarrow> store \<Rightarrow> pyerror + props list \<Rightarrow> pyerror + props list" where
  "patched_xc_get_live_streams rd db original_result =
     (case original_result of
        Inl e \<Rightarrow> Inl e
      | Inr streams \<Rightarrow>
          if \<not> is_plugin_enabled rd then Inr streams
          else Inr (decorate_all db streams))"

subsection \<open>Live playback\<close>

text \<open>
  \<^verbatim>\<open>pathlib.Path(channel_id).stem\<close> for a path segment (the route's \<^verbatim>\<open>channel_id\<close>
  holds no slash): the name without its last suffix, where a leading or a trailing dot
  starts no suffix.
\<close>

definition path_stem :: "string \<Rightarrow> string" where
  "path_stem name =
     (if name = ''.'' then []
      else (case dropWhile (\<lambda>c. c \<noteq> CHR ''.'') (rev name) of
              [] \<Rightarrow> name
            | _ # before \<Rightarrow>
                if 0 < length before \<and> length before < length name - 1
                then take (length before) name else name))"

text \<open>
  The lookup of \<^verbatim>\<open>patched_stream_xc\<close>: first by the provider's stream id, then by the
  internal id, as the host's own \<^verbatim>\<open>stream_xc\<close> does it.
\<close>

definition has_enabled_membership :: "store \<Rightarrow> int list \<Rightarrow> channel \<Rightarrow> bool" where
  "has_enabled_membership db profiles c =
     list_ex (\<lambda>m. ms_channel m = channel_pk c \<and> ms_enabled m \<and> ms_profile m \<in> set profiles)
       (membership_table db)"

definition internal_id_lookup :: "store \<Rightarrow> user \<Rightarrow> int \<Rightarrow> channel option" where
  "internal_id_lookup db usr internal_id =
     (if user_level usr < 10
      then (if length (channel_profiles usr) = 0
            then qs_first (filter (\<lambda>c. channel_pk c = internal_id
                                        \<and> channel_user_level c \<le> user_level usr)
                             (channel_table db))
            else qs_first (filter (\<lambda>c. channel_pk c = internal_id
                                        \<and> has_enabled_membership db (channel_profiles usr) c
                                        \<and> channel_user_level c \<le> user_level usr)
                             (channel_table db)))
      else qs_first (channels_with_id db internal_id))"

definition lookup_channel :: "store \<Rightarrow> user \<Rightarrow> string \<Rightarrow> channel option" where
  "lookup_channel db usr channel_id_str =
     (let channel = (case qs_first (xc_streams_with_id db channel_id_str) of
                       None \<Rightarrow> None
                     | Some st \<Rightarrow> qs_first (stream_channels db st))
      in (case channel of
            Some ch \<Rightarrow> Some ch
          | None \<Rightarrow>
              (case int_of_str channel_id_str of
                 Inl e \<Rightarrow> None
               | Inr internal_id \<Rightarrow> internal_id_lookup db usr internal_id)))"

text \<open>
  \<^verbatim>\<open>patched_stream_xc(request, username, password, channel_id)\<close>. \<open>original\<close> is the
  saved \<^verbatim>\<open>stream_xc\<close>, \<open>stream_ts\<close> the host's playback by channel UUID.
\<close>

definition patched_stream_xc :: "pyerror + bool \<Rightarrow> (string \<Rightarrow> string \<Rightarrow> string \<Rightarrow> pyerror + response) \<Rightarrow> (string \<Rightarrow> pyerror + response) \<Rightarrow> store \<Rightarrow> string \<Rightarrow> string \<Rightarrow> string \<Rightarrow> pyerror + response" where
  "patched_stream_xc rd original stream_ts db uname password channel_id =
     (if \<not> is_plugin_enabled rd then original uname password channel_id
      else
        (case map_of (user_table db) uname of
           None \<Rightarrow> Inl Http404
         | Some usr \<Rightarrow>
             (let channel_id_str = path_stem channel_id;
                  custom_properties = or_empty (user_properties usr)
              in (case map_of custom_properties ''xc_password'' of
                    None \<Rightarrow> Inr (ErrorResponse ''Invalid credentials'' 401)
                  | Some xc_password \<Rightarrow>
                      if xc_password \<noteq> PStr password
                      then Inr (ErrorResponse ''Invalid credentials'' 401)
                      else
                        (case lookup_channel db usr channel_id_str of
                           None \<Rightarrow> Inr (ErrorResponse ''Not found'' 404)
                         | Some ch \<Rightarrow>
                             if user_level usr < channel_user_level ch
                             then Inr (ErrorResponse ''Not found'' 404)
                             else stream_ts (channel_uuid ch))))))"

subsection \<open>URL resolution\<close>

text \<open>
  \<^verbatim>\<open>TIMESHIFT_PATTERN.match(path)\<close> for
  \<^verbatim>\<open>^/?timeshift/(?P<username>[^/]+)/(?P<password>[^/]+)/(?P<stream_id>\d+)/(?P<timestamp>[\d\-:]+)/(?P<duration>\d+)\.ts$\<close>.
  Every group is a run of characters that cannot hold the character after it, so the
  match reads the path from the left without backtracking. \<^verbatim>\<open>$\<close> matches at the end
  of the path and before a newline that ends it.
\<close>

record groupdict =
  group_username :: string
  group_password :: string
  group_stream_id :: string
  group_timestamp :: string
  group_duration :: string

definition not_slash :: "char \<Rightarrow> bool" where
  "not_slash c = (c \<noteq> CHR ''/'')"

definition timestamp_char :: "char \<Rightarrow> bool" where
  "timestamp_char c = (is_digit c \<or> c = CHR ''-'' \<or> c = CHR '':'')"

text \<open>A literal of the pattern: the rest of the input after it, if the input starts with it.\<close>

definition expect :: "string \<Rightarrow> string \<Rightarrow> string option" where
  "expect literal s = (if startswith s literal then Some (drop (length literal) s) else None)"

text \<open>A group \<^verbatim>\<open>[...]+\<close>: the longest run of characters of the class, which must not be empty.\<close>

definition group :: "(char \<Rightarrow> bool) \<Rightarrow> string \<Rightarrow> (string \<times> string) option" where
  "group cls s = (if takeWhile cls s = [] then None else Some (takeWhile cls s, dropWhile cls s))"

definition timeshift_pattern_match :: "string \<Rightarrow> groupdict option" where
  "timeshift_pattern_match path =
     (case expect ''timeshift/'' (case expect ''/'' path of None \<Rightarrow> path | Some rest \<Rightarrow> rest) of
        None \<Rightarrow> None
      | Some s1 \<Rightarrow>
     (case group not_slash s1 of
        None \<Rightarrow> None
      | Some (username, s2) \<Rightarrow>
     (case expect ''/'' s2 of
        None \<Rightarrow> None
      | Some s3 \<Rightarrow>
     (case group not_slash s3 of
        None \<Rightarrow> None
      | Some (password, s4) \<Rightarrow>
     (case expect ''/'' s4 of
        None \<Rightarrow> None
      | Some s5 \<Rightarrow>
     (case group is_digit s5 of
        None \<Rightarrow> None
      | Some (stream_id, s6) \<Rightarrow>
     (case expect ''/'' s6 of
        None \<Rightarrow> None
      | Some s7 \<Rightarrow>
     (case group timestamp_char s7 of
        None \<Rightarrow> None
      | Some (timestamp, s8) \<Rightarrow>
     (case expect ''/'' s8 of
        None \<Rightarrow> None
      | Some s9 \<Rightarrow>
     (case group is_digit s9 of
        None \<Rightarrow> None
      | Some (duration, s10) \<Rightarrow>
          if s10 = ''.ts'' \<or> s10 = ''.ts'' @ [CHR 0x0A]
          then Some \<lparr>group_username = username, group_password = password,
                      group_stream_id = stream_id, group_timestamp = timestamp,
                      group_duration = duration\<rparr>
          else None))))))))))"

text \<open>
  \<^verbatim>\<open>patched_resolve(self, path)\<close>. \<open>original\<close> is the saved \<^verbatim>\<open>URLResolver.resolve\<close> and
  \<open>resolver_match g route\<close> stands for
  \<^verbatim>\<open>ResolverMatch(timeshift_proxy, (), g, route=route)\<close>. The second component lists the
  log lines the wrapper itself writes.
\<close>

definition patched_resolve :: "pyerror + bool \<Rightarrow> ('s \<Rightarrow> string \<Rightarrow> 'r) \<Rightarrow> (groupdict \<Rightarrow> string \<Rightarrow> 'r) \<Rightarrow> 's \<Rightarrow> string \<Rightarrow> 'r \<times> string list" where
  "patched_resolve rd original resolver_match self path =
     (if is_plugin_enabled rd \<and> (startswith path ''/timeshift/'' \<or> startswith path ''timeshift/'')
      then (case timeshift_pattern_match path of
              Some g \<Rightarrow> (resolver_match g path, [''[Timeshift] Intercepted: '' @ path])
            | None \<Rightarrow> (original self path, []))
      else (original self path, []))"

section \<open>\<^verbatim>\<open>hooks.py\<close>: installing and removing the wrappers\<close>

text \<open>
  A function object is a host function, known by its name, or a wrapper made by one of
  the three patch functions. Every run of a patch function makes a new wrapper; the
  number tells the wrappers apart, since Python compares functions by identity.
\<close>

datatype fn =
    Host string
  | Patched_xc_get_live_streams nat
  | Patched_stream_xc nat
  | Patched_resolve nat

text \<open>
  The places the patch functions read and write: the three attributes of the host they
  replace, the callbacks of the host's URL patterns (\<open>None\<close> for a pattern with no
  \<^verbatim>\<open>callback\<close> attribute), and the module's four globals. \<^verbatim>\<open>_original_url_callbacks\<close> is
  keyed by \<^verbatim>\<open>id(pattern)\<close>, here the position of the pattern in \<^verbatim>\<open>urlpatterns\<close>.
\<close>

record hook_state =
  attr_xc_get_live_streams :: fn
  attr_stream_xc :: fn
  attr_resolve :: fn
  urlpatterns :: "fn option list"
  original_xc_get_live_streams :: "fn option"
  original_stream_xc :: "fn option"
  original_url_callbacks :: "(nat \<times> fn) list"
  original_resolve :: "fn option"
  wrappers_made :: nat

definition patch_xc_get_live_streams :: "hook_state \<Rightarrow> hook_state" where
  "patch_xc_get_live_streams st =
     st\<lparr>original_xc_get_live_streams := Some (attr_xc_get_live_streams st),
        attr_xc_get_live_streams := Patched_xc_get_live_streams (wrappers_made st),
        wrappers_made := Suc (wrappers_made st)\<rparr>"

definition restore_xc_get_live_streams :: "hook_state \<Rightarrow> hook_state" where
  "restore_xc_get_live_streams st =
     (case original_xc_get_live_streams st of
        None \<Rightarrow> st
      | Some f \<Rightarrow> st\<lparr>attr_xc_get_live_streams := f, original_xc_get_live_streams := None\<rparr>)"

text \<open>
  The loop of \<^verbatim>\<open>_patch_stream_xc\<close> over the URL patterns, from position \<open>i\<close>: a callback
  equal to the saved function is recorded and replaced by the wrapper.
\<close>

fun patch_callbacks :: "fn \<Rightarrow> fn \<Rightarrow> nat \<Rightarrow> fn option list \<Rightarrow> (nat \<times> fn) list \<Rightarrow> fn option list \<times> (nat \<times> fn) list" where
  "patch_callbacks orig patched i [] saved = ([], saved)"
| "patch_callbacks orig patched i (cb # rest) saved =
     (if cb = Some orig
      then (case patch_callbacks orig patched (Suc i) rest (AList.update i orig saved) of
              (rest', saved') \<Rightarrow> (Some patched # rest', saved'))
      else (case patch_callbacks orig patched (Suc i) rest saved of
              (rest', saved') \<Rightarrow> (cb # rest', saved')))"

definition patch_stream_xc :: "hook_state \<Rightarrow> hook_state" where
  "patch_stream_xc st =
     (let orig = attr_stream_xc st;
          patched = Patched_stream_xc (wrappers_made st)
      in (case patch_callbacks orig patched 0 (urlpatterns st) (original_url_callbacks st) of
            (patterns', saved') \<Rightarrow>
              st\<lparr>original_stream_xc := Some orig,
                 attr_stream_xc := patched,
                 urlpatterns := patterns',
                 original_url_callbacks := saved',
                 wrappers_made := Suc (wrappers_made st)\<rparr>))"

text \<open>The loop of \<^verbatim>\<open>_restore_stream_xc\<close>: a recorded pattern gets its recorded callback back.\<close>

fun restore_callbacks :: "(nat \<times> fn) list \<Rightarrow> nat \<Rightarrow> fn option list \<Rightarrow> fn option list" where
  "restore_callbacks saved i [] = []"
| "restore_callbacks saved i (cb # rest) =
     (case map_of saved i of
        None \<Rightarrow> cb # restore_callbacks saved (Suc i) rest
      | Some f \<Rightarrow> Some f # restore_callbacks saved (Suc i) rest)"

definition restore_stream_xc :: "hook_state \<Rightarrow> hook_state" where
  "restore_stream_xc st =
     (case original_stream_xc st of
        None \<Rightarrow> st
      | Some f \<Rightarrow>
          st\<lparr>attr_stream_xc := f,
             urlpatterns := restore_callbacks (original_url_callbacks st) 0 (urlpatterns st),
             original_url_callbacks := [],
             original_stream_xc := None\<rparr>)"

definition patch_url_resolver :: "hook_state \<Rightarrow> hook_state" where
  "patch_url_resolver st =
     (if original_resolve st \<noteq> None then st
      else st\<lparr>original_resolve := Some (attr_resolve st),
              attr_resolve := Patched_resolve (wrappers_made st),
              wrappers_made := Suc (wrappers_made st)\<rparr>)"

definition restore_url_resolver :: "hook_state \<Rightarrow> hook_state" where
  "restore_url_resolver st =
     (case original_resolve st of
        None \<Rightarrow> st
      | Some f \<Rightarrow> st\<lparr>attr_resolve := f, original_resolve := None\<rparr>)"

text \<open>\<^verbatim>\<open>install_hooks()\<close> returns \<^verbatim>\<open>True\<close> when none of the three patch functions raises.\<close>

definition install_hooks :: "hook_state \<Rightarrow> bool \<times> hook_state" where
  "install_hooks st = (True, patch_url_resolver (patch_stream_xc (patch_xc_get_live_streams st)))"

definition uninstall_hooks :: "hook_state \<Rightarrow> hook_state" where
  "uninstall_hooks st = restore_url_resolver (restore_stream_xc (restore_xc_get_live_streams st))"

text \<open>The host before the plugin is loaded: nothing patched, nothing saved.\<close>

definition host_state :: "fn option list \<Rightarrow> hook_state" where
  "host_state patterns =
     \<lparr>attr_xc_get_live_streams = Host ''xc_get_live_streams'',
      attr_stream_xc = Host ''stream_xc'',
      attr_resolve = Host ''URLResolver.resolve'',
      urlpatterns = patterns,
      original_xc_get_live_streams = None,
      original_stream_xc = None,
      original_url_callbacks = [],
      original_resolve = None,
      wrappers_made = 0\<rparr>"

text \<open>
  Who serves a call that every wrapper passes on. A wrapper reads its module global at
  the time of the call (\<^verbatim>\<open>_original_xc_get_live_streams\<close>, \<^verbatim>\<open>_original_stream_xc\<close>,
  \<^verbatim>\<open>_original_resolve\<close>) and calls what it holds; calling \<^verbatim>\<open>None\<close> raises
  \<^verbatim>\<open>TypeError\<close>. \<open>limit\<close> is the interpreter's recursion limit: a chain of calls deeper
  than it raises \<^verbatim>\<open>RecursionError\<close>. The result lists the functions entered, in order.
\<close>

fun call_chain :: "nat \<Rightarrow> hook_state \<Rightarrow> fn \<Rightarrow> pyerror + fn list" where
  "call_chain 0 st f = Inl RecursionError"
| "call_chain (Suc limit) st f =
     (case f of
        Host name \<Rightarrow> Inr [Host name]
      | Patched_xc_get_live_streams k \<Rightarrow>
          (case original_xc_get_live_streams st of
             None \<Rightarrow> Inl TypeError
           | Some g \<Rightarrow> (case call_chain limit st g of Inl e \<Rightarrow> Inl e | Inr fs \<Rightarrow> Inr (f # fs)))
      | Patched_stream_xc k \<Rightarrow>
          (case original_stream_xc st of
             None \<Rightarrow> Inl TypeError
           | Some g \<Rightarrow> (case call_chain limit st g of Inl e \<Rightarrow> Inl e | Inr fs \<Rightarrow> Inr (f # fs)))
      | Patched_resolve k \<Rightarrow>
          (case original_resolve st of
             None \<Rightarrow> Inl TypeError
           | Some g \<Rightarrow> (case call_chain limit st g of Inl e \<Rightarrow> Inl e | Inr fs \<Rightarrow> Inr (f # fs))))"

section \<open>A small installation\<close>

text \<open>
  The data of the specification's scenarios: user \<^verbatim>\<open>john\<close> with the XC password
  \<^verbatim>\<open>secret123\<close> and no channel profile, one XC account, one stream with the provider's
  id \<^verbatim>\<open>22371\<close>, linked to the channel with the internal id 155. The user's level, the
  channel's level and the stream's property bag vary between scenarios.
\<close>

definition example_account :: m3u_account where
  "example_account =
     \<lparr>account_type = ''XC'', server_url = ''http://provider.example:8080/'',
      account_username = ''acc'', account_password = ''pw'',
      account_user_agent = ''VLC/3.0''\<rparr>"

definition example_user :: "int \<Rightarrow> user" where
  "example_user lvl =
     \<lparr>user_level = lvl, user_properties = Some [(''xc_password'', PStr ''secret123'')],
      django_password = ''pbkdf2_sha256$x'', channel_profiles = []\<rparr>"

definition example_stream :: "props \<Rightarrow> stream" where
  "example_stream bag =
     \<lparr>stream_pk = 9, stream_properties = Some bag, stream_m3u_account = Some example_account\<rparr>"

definition example_channel :: "int \<Rightarrow> channel" where
  "example_channel lvl =
     \<lparr>channel_pk = 155, channel_name = ''News'', channel_user_level = lvl,
      channel_uuid = ''0b5c-uuid''\<rparr>"

definition example_store :: "int \<Rightarrow> int \<Rightarrow> props \<Rightarrow> store" where
  "example_store user_lvl channel_lvl bag =
     \<lparr>user_table = [(''john'', example_user user_lvl)],
      channel_table = [example_channel channel_lvl],
      stream_table = [example_stream bag],
      channelstream_table = [\<lparr>cs_channel = 155, cs_stream = 9, cs_order = 0\<rparr>],
      membership_table = []\<rparr>"

definition example_zones :: zones where
  "example_zones key =
     (if key = ''UTC'' then Some (\<lambda>t. 0)
      else if key = ''Etc/GMT-1'' then Some (\<lambda>t. 3600)
      else None)"

definition example_config :: "(string \<times> string) list" where
  "example_config =
     [(''timezone'', ''Etc/GMT-1''),
      (''catchup_url_template'',
       ''{server.url}/streaming/timeshift.php?username={XC.username}&password={XC.password}&stream={stream_id}&start={program.starttime}&duration={program.duration}'')]"

text \<open>
  A provider that answers every call with the given status, a \<^verbatim>\<open>Content-Range\<close> header
  and three chunks, one of them empty.
\<close>

definition example_upstream :: "nat \<Rightarrow> upstream" where
  "example_upstream status call =
     Replied \<lparr>status_code = status, response_headers = [(''content-range'', ''bytes 1000-1004/5000'')],
              response_chunks = [''abc'', [], ''de'']\<rparr>"

definition example_bag :: "pv \<Rightarrow> props" where
  "example_bag archive = [(''stream_id'', PStr ''22371''), (''tv_archive'', archive)]"

definition example_request :: request where
  "example_request = \<lparr>http_range = Some ''bytes=1000-''\<rparr>"

text \<open>
  A catalog entry as the host lists it for channel 155, and a property bag whose
  \<^verbatim>\<open>tv_archive_duration\<close> is not a number.
\<close>

definition example_entry :: "int \<Rightarrow> props" where
  "example_entry n = [(''name'', PStr ''News''), (''stream_id'', PInt n)]"

definition example_malformed_bag :: props where
  "example_malformed_bag =
     [(''stream_id'', PStr ''22371''), (''tv_archive'', PInt 1),
      (''tv_archive_duration'', PStr ''7 days'')]"

section \<open>Identifier resolution as the specification words it\<close>

text \<open>
  The resolution order in the words of the specification, to be compared with
  \<open>lookup_channel\<close>: a stream with the provider's id decides the result by its first
  channel; otherwise the input is read as an internal id, and a user below level 10 sees
  the channel only through an enabled membership in one of the user's profiles and at the
  user's level.
\<close>

definition lookup_as_specified :: "store \<Rightarrow> user \<Rightarrow> string \<Rightarrow> channel option" where
  "lookup_as_specified db usr s =
     (case qs_first (xc_streams_with_id db s) of
        Some st \<Rightarrow> qs_first (stream_channels db st)
      | None \<Rightarrow>
          (case int_of_str s of
             Inl e \<Rightarrow> None
           | Inr n \<Rightarrow>
               if user_level usr < 10
               then qs_first (filter (\<lambda>c. channel_pk c = n
                                          \<and> has_enabled_membership db (channel_profiles usr) c
                                          \<and> channel_user_level c \<le> user_level usr)
                               (channel_table db))
               else qs_first (channels_with_id db n)))"

text \<open>
  The host's URL patterns for the examples: the live route served by \<^verbatim>\<open>stream_xc\<close>, an
  included resolver with no callback, and the catch-all.
\<close>

definition example_urlpatterns :: "fn option list" where
  "example_urlpatterns = [Some (Host ''stream_xc''), None, Some (Host ''handle_404'')]"

text \<open>A property bag whose provider \<^verbatim>\<open>stream_id\<close> is not a number, after two fields that are.\<close>

definition example_malformed_id_bag :: props where
  "example_malformed_id_bag =
     [(''stream_id'', PStr ''22371x''), (''tv_archive'', PInt 1),
      (''tv_archive_duration'', PStr ''7'')]"

section \<open>Facts about the small installation\<close>

lemma example_authenticates:
  "authenticate_user (example_store ul cl bag) ''john'' ''secret123'' = Some (example_user ul)"
  by (simp add: authenticate_user_def example_store_def example_user_def dict_get_def or_empty_def)

lemma example_found:
  "find_channel_by_provider_stream_id (example_store ul cl (example_bag a)) ''22371''
     = Some (example_channel cl, example_stream (example_bag a))"
  by (simp add: find_channel_by_provider_stream_id_def xc_streams_with_id_def
      is_xc_stream_with_id_def stream_channels_def qs_first_def example_store_def
      example_stream_def example_bag_def example_account_def example_channel_def)

lemma rstrip_digits: "rstrip ''.ts'' ''22371'' = ''22371''"
  by (simp add: rstrip_def)

section \<open>The timeshift handler stops at its first import\<close>

text \<open>
  \<^verbatim>\<open>hooks.py\<close> binds neither \<^verbatim>\<open>_has_catchup_support\<close> nor \<^verbatim>\<open>_get_plugin_config\<close>, so with
  this module the feature check raises before it reads the stream, whatever the two names
  might have stood for.
\<close>

lemma feature_check_hooks_py:
  "feature_check (hooks_py c g) tz up req timestamp st = (Inl ImportError, [])"
  by (simp add: feature_check_def import_from_def hooks_py_def hooks_globals_def)

text \<open>
  Had the module bound the name, a stream without catchup would have been refused with
  the handler's own message and without any outbound call.
\<close>

lemma feature_check_unsupported:
  assumes "''_has_catchup_support'' \<in> set (module_names m)"
    and "catchup m (or_empty (stream_properties st)) = Inr (False, d)"
  shows "feature_check m tz up req timestamp st
         = (Inr (HttpResponseBadRequest ''Catchup/timeshift not supported for this channel''), [])"
  using assms by (simp add: feature_check_def import_from_def)

text \<open>
  Claim C1. Every request that is authenticated, resolves to a channel and passes the
  access-level check reaches \<^verbatim>\<open>from .hooks import _has_catchup_support\<close>; the module does
  not bind that name (nor \<^verbatim>\<open>_get_plugin_config\<close>), so the handler raises
  \<^verbatim>\<open>ImportError\<close>. For every input at all, the handler makes no outbound call and never
  returns a streaming response.
\<close>

theorem timeshift_proxy_raises_import_error:
  "(authenticate_user db uname password = Some usr
      \<and> find_channel_by_provider_stream_id db (rstrip ''.ts'' duration) = Some (ch, st)
      \<and> \<not> user_level usr < channel_user_level ch
    \<longrightarrow> timeshift_proxy (hooks_py c g) tz db up req uname password stream_id timestamp duration
          = (Inl ImportError, []))
   \<and> snd (timeshift_proxy (hooks_py c g) tz db up req uname password stream_id timestamp duration) = []
   \<and> (\<forall>status ctype hs chunks.
         fst (timeshift_proxy (hooks_py c g) tz db up req uname password stream_id timestamp duration)
           \<noteq> Inr (StreamingHttpResponse status ctype hs chunks))
   \<and> ''_has_catchup_support'' \<notin> set (module_names (hooks_py c g))
   \<and> ''_get_plugin_config'' \<notin> set (module_names (hooks_py c g))"
proof -
  have "''_has_catchup_support'' \<notin> set (module_names (hooks_py c g))"
    and "''_get_plugin_config'' \<notin> set (module_names (hooks_py c g))"
    by (simp_all add: hooks_py_def hooks_globals_def)
  then show ?thesis
    by (auto simp add: timeshift_proxy_def feature_check_hooks_py Let_def split: option.splits)
qed

theorem timeshift_proxy_raises_import_error_witness:
  "authenticate_user (example_store 1 0 (example_bag (PInt 1))) ''john'' ''secret123''
     = Some (example_user 1)
   \<and> find_channel_by_provider_stream_id (example_store 1 0 (example_bag (PInt 1)))
        (rstrip ''.ts'' ''22371'')
     = Some (example_channel 0, example_stream (example_bag (PInt 1)))
   \<and> \<not> user_level (example_user 1) < channel_user_level (example_channel 0)
   \<and> timeshift_proxy (hooks_py (\<lambda>p. Inr (True, 120)) (Inr example_config)) example_zones
        (example_store 1 0 (example_bag (PInt 1))) (example_upstream 200) example_request
        ''john'' ''secret123'' ''155'' ''2025-01-15:14-30'' ''22371''
     = (Inl ImportError, [])"
proof -
  have a: "authenticate_user (example_store 1 0 (example_bag (PInt 1))) ''john'' ''secret123''
     = Some (example_user 1)"
    by (rule example_authenticates)
  have f: "find_channel_by_provider_stream_id (example_store 1 0 (example_bag (PInt 1)))
        (rstrip ''.ts'' ''22371'')
     = Some (example_channel 0, example_stream (example_bag (PInt 1)))"
    by (simp only: rstrip_digits example_found)
  have l: "\<not> user_level (example_user 1) < channel_user_level (example_channel 0)"
    by (simp add: example_user_def example_channel_def)
  from a f l show ?thesis
    using timeshift_proxy_raises_import_error
      [of "example_store 1 0 (example_bag (PInt 1))" "''john''" "''secret123''" "example_user 1"
          "''22371''" "example_channel 0" "example_stream (example_bag (PInt 1))"]
    by blast
qed

text \<open>
  Claim C2 asks for a \<^verbatim>\<open>BadRequest\<close> with the body
  \<^verbatim>\<open>Catchup/timeshift not supported for this channel\<close> when the resolved stream has no
  catchup. The scenario of the specification (\<^verbatim>\<open>john\<close>, \<^verbatim>\<open>secret123\<close>, provider id
  \<^verbatim>\<open>22371\<close> with \<^verbatim>\<open>tv_archive = 0\<close>) ends in \<^verbatim>\<open>ImportError\<close> instead, like every request
  that gets as far as the feature check. No outbound call is made.
\<close>

theorem no_catchup_request_raises_import_error:
  "\<forall>c g. timeshift_proxy (hooks_py c g) example_zones
        (example_store 1 0 (example_bag (PInt 0))) (example_upstream 200) example_request
        ''john'' ''secret123'' ''155'' ''2025-01-15:14-30'' ''22371''
     = (Inl ImportError, [])
   \<and> fst (timeshift_proxy (hooks_py c g) example_zones
        (example_store 1 0 (example_bag (PInt 0))) (example_upstream 200) example_request
        ''john'' ''secret123'' ''155'' ''2025-01-15:14-30'' ''22371'')
     \<noteq> Inr (HttpResponseBadRequest ''Catchup/timeshift not supported for this channel'')"
  by (simp add: timeshift_proxy_def rstrip_digits example_authenticates example_found
      feature_check_hooks_py example_user_def example_channel_def)

section \<open>Authentication\<close>

text \<open>No step after the access-level check answers with Django's \<^verbatim>\<open>HttpResponseForbidden\<close>.\<close>

lemma proxy_stream_not_forbidden:
  "fst (proxy_stream up req url ua) \<noteq> Inr (HttpResponseForbidden msg)"
  by (simp add: proxy_stream_def Let_def split: upstream_reply.splits requests_exception.splits)

lemma build_and_proxy_not_forbidden:
  "fst (build_and_proxy m tz up req timestamp props acc) \<noteq> Inr (HttpResponseForbidden msg)"
  by (simp add: build_and_proxy_def Let_def proxy_stream_not_forbidden
      split: sum.splits option.splits)

lemma feature_check_not_forbidden:
  "fst (feature_check m tz up req timestamp st) \<noteq> Inr (HttpResponseForbidden msg)"
  by (simp add: feature_check_def Let_def build_and_proxy_not_forbidden
      split: sum.splits option.splits prod.splits)

text \<open>Rewriting a field of every user changes a lookup by name only in that field.\<close>

lemma map_of_map_values:
  "map_of (map (\<lambda>(n, u). (n, h n u)) xs) k = map_option (h k) (map_of xs k)"
  by (induction xs) auto

lemma authenticate_user_None_iff:
  "authenticate_user db uname password = None
     \<longleftrightarrow> (map_of (user_table db) uname = None
          \<or> (\<exists>u. map_of (user_table db) uname = Some u
                 \<and> (\<not> truthy (dict_get (or_empty (user_properties u)) ''xc_password'')
                    \<or> dict_get (or_empty (user_properties u)) ''xc_password'' \<noteq> PStr password)))"
  by (auto simp add: authenticate_user_def Let_def split: option.splits)

lemma authenticate_user_None_iff_nonempty:
  assumes "password \<noteq> []"
  shows "authenticate_user db uname password = None
     \<longleftrightarrow> (map_of (user_table db) uname = None
          \<or> (\<exists>u. map_of (user_table db) uname = Some u
                 \<and> (map_of (or_empty (user_properties u)) ''xc_password'' = None
                    \<or> map_of (or_empty (user_properties u)) ''xc_password'' \<noteq> Some (PStr password))))"
  using assms
  by (auto simp add: authenticate_user_None_iff dict_get_def split: option.splits)

lemma timeshift_proxy_invalid_credentials_iff:
  "timeshift_proxy m tz db up req uname password stream_id timestamp duration
       = (Inr (HttpResponseForbidden ''Invalid credentials''), [])
     \<longleftrightarrow> authenticate_user db uname password = None"
proof (cases "authenticate_user db uname password")
  case None
  then show ?thesis by (simp add: timeshift_proxy_def)
next
  case (Some usr)
  have "fst (timeshift_proxy m tz db up req uname password stream_id timestamp duration)
          \<noteq> Inr (HttpResponseForbidden ''Invalid credentials'')"
    using feature_check_not_forbidden
    by (simp add: timeshift_proxy_def Some Let_def split: option.splits prod.splits)
  with Some show ?thesis by auto
qed

lemma authenticate_user_ignores_django_password:
  "authenticate_user (db\<lparr>user_table := map (\<lambda>(n, u). (n, u\<lparr>django_password := h n u\<rparr>)) (user_table db)\<rparr>)
       uname password
     = map_option (\<lambda>u. u\<lparr>django_password := h uname u\<rparr>) (authenticate_user db uname password)"
  by (simp add: authenticate_user_def map_of_map_values Let_def split: option.splits)

text \<open>
  Claim C7. \<^verbatim>\<open>_authenticate_user\<close> looks the user up by the exact name and returns
  \<^verbatim>\<open>None\<close> exactly when there is no such user, or the user's \<^verbatim>\<open>xc_password\<close> is missing
  or empty (the test \<^verbatim>\<open>not xc_password\<close>, which the code logs as
  \<^verbatim>\<open>has no xc_password configured\<close>), or it differs from the supplied password. For a
  non-empty supplied password, which is all the route's group \<^verbatim>\<open>[^/]+\<close> can deliver, that
  is: no such user, no \<^verbatim>\<open>xc_password\<close> key in the bag, or a value other than the supplied
  password. The handler answers \<^verbatim>\<open>HttpResponseForbidden("Invalid credentials")\<close> with no
  outbound call exactly in that case, for any module it imports from. Django's own
  password is never read: rewriting it for every user changes nothing else in the result.
\<close>

theorem authentication:
  "(authenticate_user db uname password = None
      \<longleftrightarrow> (map_of (user_table db) uname = None
           \<or> (\<exists>u. map_of (user_table db) uname = Some u
                  \<and> (\<not> truthy (dict_get (or_empty (user_properties u)) ''xc_password'')
                     \<or> dict_get (or_empty (user_properties u)) ''xc_password'' \<noteq> PStr password))))
   \<and> (password \<noteq> [] \<longrightarrow>
        (authenticate_user db uname password = None
           \<longleftrightarrow> (map_of (user_table db) uname = None
                \<or> (\<exists>u. map_of (user_table db) uname = Some u
                       \<and> (map_of (or_empty (user_properties u)) ''xc_password'' = None
                          \<or> map_of (or_empty (user_properties u)) ''xc_password''
                               \<noteq> Some (PStr password))))))
   \<and> (timeshift_proxy m tz db up req uname password stream_id timestamp duration
         = (Inr (HttpResponseForbidden ''Invalid credentials''), [])
       \<longleftrightarrow> authenticate_user db uname password = None)
   \<and> authenticate_user
         (db\<lparr>user_table := map (\<lambda>(n, u). (n, u\<lparr>django_password := h n u\<rparr>)) (user_table db)\<rparr>)
         uname password
       = map_option (\<lambda>u. u\<lparr>django_password := h uname u\<rparr>) (authenticate_user db uname password)"
  using authenticate_user_None_iff [of db uname password]
    authenticate_user_None_iff_nonempty [of password db uname]
    timeshift_proxy_invalid_credentials_iff [of m tz db up req uname password stream_id timestamp duration]
    authenticate_user_ignores_django_password [of h db uname password]
  by blast


theorem authentication_witness:
  "''wrong'' \<noteq> []
   \<and> map_of (user_table (example_store 1 0 (example_bag (PInt 1)))) ''john'' = Some (example_user 1)
   \<and> map_of (or_empty (user_properties (example_user 1))) ''xc_password'' \<noteq> Some (PStr ''wrong'')
   \<and> authenticate_user (example_store 1 0 (example_bag (PInt 1))) ''john'' ''wrong'' = None
   \<and> timeshift_proxy (hooks_py (\<lambda>p. Inr (True, 120)) (Inr example_config)) example_zones
        (example_store 1 0 (example_bag (PInt 1))) (example_upstream 200) example_request
        ''john'' ''wrong'' ''155'' ''2025-01-15:14-30'' ''22371''
     = (Inr (HttpResponseForbidden ''Invalid credentials''), [])"
proof -
  have u: "map_of (user_table (example_store 1 0 (example_bag (PInt 1)))) ''john'' = Some (example_user 1)"
    by (simp add: example_store_def)
  have p: "map_of (or_empty (user_properties (example_user 1))) ''xc_password'' \<noteq> Some (PStr ''wrong'')"
    by (simp add: example_user_def or_empty_def)
  have n: "''wrong'' \<noteq> []" by simp
  note t = authentication [of "example_store 1 0 (example_bag (PInt 1))" "''john''" "''wrong''"
      "hooks_py (\<lambda>p. Inr (True, 120)) (Inr example_config)" example_zones "example_upstream 200"
      example_request "''155''" "''2025-01-15:14-30''" "''22371''"]
  from t u p n have a: "authenticate_user (example_store 1 0 (example_bag (PInt 1))) ''john'' ''wrong'' = None"
    by blast
  with t u p n show ?thesis by blast
qed


section \<open>The access-level check\<close>

lemma timeshift_proxy_authorize:
  assumes "authenticate_user db uname password = Some usr"
    and "find_channel_by_provider_stream_id db (rstrip ''.ts'' duration) = Some (ch, st)"
  shows "timeshift_proxy m tz db up req uname password stream_id timestamp duration
         = (if user_level usr < channel_user_level ch
            then (Inr (HttpResponseForbidden ''Access denied''), [])
            else feature_check m tz up req timestamp st)"
  using assms by (simp add: timeshift_proxy_def)

lemma patched_stream_xc_authorize:
  assumes "is_plugin_enabled rd"
    and "map_of (user_table db) uname = Some usr"
    and "map_of (or_empty (user_properties usr)) ''xc_password'' = Some (PStr password)"
    and "lookup_channel db usr (path_stem channel_id) = Some ch"
  shows "patched_stream_xc rd original stream_ts db uname password channel_id
         = (if user_level usr < channel_user_level ch
            then Inr (ErrorResponse ''Not found'' 404)
            else stream_ts (channel_uuid ch))"
  using assms by (simp add: patched_stream_xc_def)

text \<open>
  Claim C8, as amended. Once the user is authenticated and the channel found, the
  timeshift handler answers \<^verbatim>\<open>HttpResponseForbidden("Access denied")\<close> exactly when the
  channel's level is above the user's, and goes on to the feature check otherwise. The
  patched live playback, once the plugin is enabled, the credentials are right and the
  channel is found, denies in the same case, but with the host's
  \<^verbatim>\<open>Response({"error": "Not found"}, status=404)\<close>, and hands over to \<^verbatim>\<open>stream_ts\<close>
  otherwise.
\<close>

theorem access_level_check:
  "(authenticate_user db uname password = Some usr
      \<and> find_channel_by_provider_stream_id db (rstrip ''.ts'' duration) = Some (ch, st)
    \<longrightarrow> timeshift_proxy m tz db up req uname password stream_id timestamp duration
          = (if user_level usr < channel_user_level ch
             then (Inr (HttpResponseForbidden ''Access denied''), [])
             else feature_check m tz up req timestamp st)
        \<and> ((\<exists>msg. fst (timeshift_proxy m tz db up req uname password stream_id timestamp duration)
                    = Inr (HttpResponseForbidden msg))
             \<longleftrightarrow> user_level usr < channel_user_level ch))
   \<and> (is_plugin_enabled rd
      \<and> map_of (user_table db') uname' = Some usr'
      \<and> map_of (or_empty (user_properties usr')) ''xc_password'' = Some (PStr password')
      \<and> lookup_channel db' usr' (path_stem channel_id) = Some ch'
    \<longrightarrow> patched_stream_xc rd original stream_ts db' uname' password' channel_id
          = (if user_level usr' < channel_user_level ch'
             then Inr (ErrorResponse ''Not found'' 404)
             else stream_ts (channel_uuid ch')))"
proof (intro conjI impI)
  assume h: "authenticate_user db uname password = Some usr
      \<and> find_channel_by_provider_stream_id db (rstrip ''.ts'' duration) = Some (ch, st)"
  then show "timeshift_proxy m tz db up req uname password stream_id timestamp duration
          = (if user_level usr < channel_user_level ch
             then (Inr (HttpResponseForbidden ''Access denied''), [])
             else feature_check m tz up req timestamp st)"
    by (simp add: timeshift_proxy_authorize)
  then show "(\<exists>msg. fst (timeshift_proxy m tz db up req uname password stream_id timestamp duration)
                    = Inr (HttpResponseForbidden msg))
             \<longleftrightarrow> user_level usr < channel_user_level ch"
    by (simp add: feature_check_not_forbidden)
next
  assume "is_plugin_enabled rd
      \<and> map_of (user_table db') uname' = Some usr'
      \<and> map_of (or_empty (user_properties usr')) ''xc_password'' = Some (PStr password')
      \<and> lookup_channel db' usr' (path_stem channel_id) = Some ch'"
  then show "patched_stream_xc rd original stream_ts db' uname' password' channel_id
          = (if user_level usr' < channel_user_level ch'
             then Inr (ErrorResponse ''Not found'' 404)
             else stream_ts (channel_uuid ch'))"
    by (simp add: patched_stream_xc_authorize)
qed

lemma example_lookup:
  "lookup_channel (example_store ul cl (example_bag a)) usr ''22371'' = Some (example_channel cl)"
  by (simp add: lookup_channel_def xc_streams_with_id_def
      is_xc_stream_with_id_def stream_channels_def qs_first_def example_store_def
      example_stream_def example_bag_def example_account_def example_channel_def)

lemma path_stem_example: "path_stem ''22371.ts'' = ''22371''"
  by (simp add: path_stem_def)

text \<open>
  The claim as stated fails on the live path: user \<^verbatim>\<open>john\<close> of level 1 asks for the
  channel of level 5 and is answered 404, not Forbidden.
\<close>

theorem live_denial_is_not_found:
  "user_level (example_user 1) < channel_user_level (example_channel 5)
   \<and> patched_stream_xc (Inr True) (\<lambda>u p c. Inr (HostResponse ''stream_xc''))
        (\<lambda>uuid. Inr (HostResponse uuid)) (example_store 1 5 (example_bag (PInt 1)))
        ''john'' ''secret123'' ''22371.ts''
     = Inr (ErrorResponse ''Not found'' 404)
   \<and> (\<forall>msg. patched_stream_xc (Inr True) (\<lambda>u p c. Inr (HostResponse ''stream_xc''))
        (\<lambda>uuid. Inr (HostResponse uuid)) (example_store 1 5 (example_bag (PInt 1)))
        ''john'' ''secret123'' ''22371.ts''
     \<noteq> Inr (HttpResponseForbidden msg))"
proof -
  have e: "is_plugin_enabled (Inr True)"
    by (simp add: is_plugin_enabled_def)
  have u: "map_of (user_table (example_store 1 5 (example_bag (PInt 1)))) ''john'' = Some (example_user 1)"
    by (simp add: example_store_def)
  have p: "map_of (or_empty (user_properties (example_user 1))) ''xc_password'' = Some (PStr ''secret123'')"
    by (simp add: example_user_def or_empty_def)
  have l: "lookup_channel (example_store 1 5 (example_bag (PInt 1))) (example_user 1) (path_stem ''22371.ts'')
     = Some (example_channel 5)"
    by (simp only: path_stem_example example_lookup)
  have lv: "user_level (example_user 1) < channel_user_level (example_channel 5)"
    by (simp add: example_user_def example_channel_def)
  show ?thesis
    using patched_stream_xc_authorize [OF e u p l] lv by simp
qed

theorem access_level_check_witness:
  "authenticate_user (example_store 1 5 (example_bag (PInt 1))) ''john'' ''secret123''
     = Some (example_user 1)
   \<and> find_channel_by_provider_stream_id (example_store 1 5 (example_bag (PInt 1)))
        (rstrip ''.ts'' ''22371'')
     = Some (example_channel 5, example_stream (example_bag (PInt 1)))
   \<and> timeshift_proxy (hooks_py (\<lambda>p. Inr (True, 120)) (Inr example_config)) example_zones
        (example_store 1 5 (example_bag (PInt 1))) (example_upstream 200) example_request
        ''john'' ''secret123'' ''155'' ''2025-01-15:14-30'' ''22371''
     = (Inr (HttpResponseForbidden ''Access denied''), [])
   \<and> is_plugin_enabled (Inr True)
   \<and> map_of (user_table (example_store 7 5 (example_bag (PInt 1)))) ''john'' = Some (example_user 7)
   \<and> map_of (or_empty (user_properties (example_user 7))) ''xc_password'' = Some (PStr ''secret123'')
   \<and> lookup_channel (example_store 7 5 (example_bag (PInt 1))) (example_user 7) (path_stem ''22371.ts'')
     = Some (example_channel 5)
   \<and> patched_stream_xc (Inr True) (\<lambda>u p c. Inr (HostResponse ''stream_xc''))
        (\<lambda>uuid. Inr (HostResponse uuid)) (example_store 7 5 (example_bag (PInt 1)))
        ''john'' ''secret123'' ''22371.ts''
     = Inr (HostResponse ''0b5c-uuid'')"
proof -
  have a: "authenticate_user (example_store 1 5 (example_bag (PInt 1))) ''john'' ''secret123''
     = Some (example_user 1)"
    by (rule example_authenticates)
  have f: "find_channel_by_provider_stream_id (example_store 1 5 (example_bag (PInt 1)))
        (rstrip ''.ts'' ''22371'')
     = Some (example_channel 5, example_stream (example_bag (PInt 1)))"
    by (simp only: rstrip_digits example_found)
  have e: "is_plugin_enabled (Inr True)"
    by (simp add: is_plugin_enabled_def)
  have u: "map_of (user_table (example_store 7 5 (example_bag (PInt 1)))) ''john'' = Some (example_user 7)"
    by (simp add: example_store_def)
  have p: "map_of (or_empty (user_properties (example_user 7))) ''xc_password'' = Some (PStr ''secret123'')"
    by (simp add: example_user_def or_empty_def)
  have l: "lookup_channel (example_store 7 5 (example_bag (PInt 1))) (example_user 7) (path_stem ''22371.ts'')
     = Some (example_channel 5)"
    by (simp only: path_stem_example example_lookup)
  have lv: "user_level (example_user 1) < channel_user_level (example_channel 5)"
    "\<not> user_level (example_user 7) < channel_user_level (example_channel 5)"
    "channel_uuid (example_channel 5) = ''0b5c-uuid''"
    by (simp_all add: example_user_def example_channel_def)
  note t = access_level_check [of "example_store 1 5 (example_bag (PInt 1))" "''john''" "''secret123''"
      "example_user 1" "''22371''" "example_channel 5" "example_stream (example_bag (PInt 1))"
      "hooks_py (\<lambda>p. Inr (True, 120)) (Inr example_config)" example_zones "example_upstream 200"
      example_request "''155''" "''2025-01-15:14-30''" "Inr True"
      "example_store 7 5 (example_bag (PInt 1))" "''john''" "example_user 7" "''secret123''"
      "''22371.ts''" "example_channel 5" "\<lambda>u p c. Inr (HostResponse ''stream_xc'')"
      "\<lambda>uuid. Inr (HostResponse uuid)"]
  from t a f e u p l lv show ?thesis by simp
qed

section \<open>URL resolution passes through\<close>

text \<open>A path the pattern matches starts as the wrapper's prefix test asks, and its groups are not empty.\<close>

lemma group_nonempty: "group cls s = Some (g, r) \<Longrightarrow> g \<noteq> []"
  by (auto simp add: group_def split: if_splits)

lemma pattern_match_groups_nonempty:
  assumes "timeshift_pattern_match path = Some g"
  shows "group_username g \<noteq> [] \<and> group_password g \<noteq> []"
  using assms
  by (auto simp add: timeshift_pattern_match_def dest: group_nonempty
      split: option.splits prod.splits if_splits)

lemma pattern_match_needs_prefix:
  assumes "timeshift_pattern_match path = Some g"
  shows "startswith path ''/timeshift/'' \<or> startswith path ''timeshift/''"
proof -
  from assms obtain s1 where
    e: "expect ''timeshift/'' (case expect ''/'' path of None \<Rightarrow> path | Some rest \<Rightarrow> rest) = Some s1"
    by (auto simp add: timeshift_pattern_match_def split: option.splits)
  show ?thesis
  proof (cases "expect ''/'' path")
    case None
    with e show ?thesis by (simp add: expect_def split: if_splits)
  next
    case (Some rest)
    then have "path = CHR ''/'' # rest"
      by (cases path) (auto simp add: expect_def startswith_def split: if_splits)
    with e Some show ?thesis by (simp add: expect_def startswith_def split: if_splits)
  qed
qed

text \<open>
  Claim C5. For every path: when the path does not match the timeshift pattern, or the
  enabled flag reads false, or reading it raises, the patched \<^verbatim>\<open>resolve\<close> returns what the
  original \<^verbatim>\<open>resolve\<close> returns for that path and writes no log line of its own.
\<close>

theorem resolve_pass_through:
  "timeshift_pattern_match path = None \<or> rd = Inr False \<or> (\<exists>e. rd = Inl e)
   \<longrightarrow> patched_resolve rd original resolver_match self path = (original self path, [])"
  by (auto simp add: patched_resolve_def is_plugin_enabled_def)

text \<open>In the remaining case the wrapper answers itself, with the groups of the match.\<close>

lemma resolve_intercepts:
  assumes "rd = Inr True" and "timeshift_pattern_match path = Some g"
  shows "patched_resolve rd original resolver_match self path
         = (resolver_match g path, [''[Timeshift] Intercepted: '' @ path])"
  using assms pattern_match_needs_prefix [OF assms(2)]
  by (auto simp add: patched_resolve_def is_plugin_enabled_def)


lemma example_path_matches:
  "timeshift_pattern_match ''/timeshift/john/secret123/155/2025-01-15:14-30/22371.ts''
   = Some \<lparr>group_username = ''john'', group_password = ''secret123'', group_stream_id = ''155'',
            group_timestamp = ''2025-01-15:14-30'', group_duration = ''22371''\<rparr>"
  by (simp add: timeshift_pattern_match_def expect_def group_def startswith_def not_slash_def
      is_digit_def timestamp_char_def)

lemma live_path_does_not_match:
  "timeshift_pattern_match ''/live/john/secret123/155.ts'' = None"
  by (simp add: timeshift_pattern_match_def expect_def startswith_def)

theorem resolve_pass_through_witness:
  "timeshift_pattern_match ''/live/john/secret123/155.ts'' = None
   \<and> patched_resolve (Inr True) (\<lambda>self path. ''host: '' @ path) (\<lambda>g route. ''timeshift_proxy'') ()
        ''/live/john/secret123/155.ts''
     = (''host: /live/john/secret123/155.ts'', [])
   \<and> patched_resolve (Inr False) (\<lambda>self path. ''host: '' @ path) (\<lambda>g route. ''timeshift_proxy'') ()
        ''/timeshift/john/secret123/155/2025-01-15:14-30/22371.ts''
     = (''host: /timeshift/john/secret123/155/2025-01-15:14-30/22371.ts'', [])
   \<and> patched_resolve (Inl DatabaseError) (\<lambda>self path. ''host: '' @ path) (\<lambda>g route. ''timeshift_proxy'') ()
        ''/timeshift/john/secret123/155/2025-01-15:14-30/22371.ts''
     = (''host: /timeshift/john/secret123/155/2025-01-15:14-30/22371.ts'', [])"
  using live_path_does_not_match
    resolve_pass_through [of "''/live/john/secret123/155.ts''" "Inr True"
      "\<lambda>self path. ''host: '' @ path" "\<lambda>g route. ''timeshift_proxy''" "()"]
    resolve_pass_through [of "''/timeshift/john/secret123/155/2025-01-15:14-30/22371.ts''" "Inr False"
      "\<lambda>self path. ''host: '' @ path" "\<lambda>g route. ''timeshift_proxy''" "()"]
    resolve_pass_through [of "''/timeshift/john/secret123/155/2025-01-15:14-30/22371.ts''" "Inl DatabaseError"
      "\<lambda>self path. ''host: '' @ path" "\<lambda>g route. ''timeshift_proxy''" "()"]
  by simp

section \<open>The proxy step\<close>

lemma proxy_stream_calls_once:
  "\<exists>call. snd (proxy_stream up req url ua) = [call] \<and> get_url call = url
      \<and> get_timeout call = 10 \<and> map_of (get_headers call) ''User-Agent'' = Some ua"
  by (simp add: proxy_stream_def Let_def split: option.splits)

lemma build_and_proxy_at_most_once:
  "length (snd (build_and_proxy m tz up req timestamp props acc)) \<le> Suc 0"
  by (simp add: build_and_proxy_def Let_def proxy_stream_def split: sum.splits option.splits)

lemma feature_check_at_most_once:
  "length (snd (feature_check m tz up req timestamp st)) \<le> Suc 0"
  by (simp add: feature_check_def Let_def build_and_proxy_at_most_once
      split: sum.splits option.splits prod.splits)

lemma timeshift_proxy_at_most_once:
  "length (snd (timeshift_proxy m tz db up req uname password stream_id timestamp duration)) \<le> 1"
  by (simp add: timeshift_proxy_def Let_def feature_check_at_most_once
      split: option.splits prod.splits)

text \<open>
  Claim C9. \<^verbatim>\<open>_proxy_stream\<close> makes exactly one outbound call, to the given URL. When the
  provider answers with a status other than 200 and 206, the result is a returned
  \<^verbatim>\<open>HttpResponseBadRequest\<close> naming the status; when the call times out or the connection
  fails, the result is a returned \<^verbatim>\<open>HttpResponseBadRequest\<close> as well. In each case the
  list of calls still holds that one call (nothing is retried) and the result is a
  response, not an exception. A whole timeshift request makes at most one outbound call,
  whatever module the handler imports from.
\<close>

theorem proxy_single_attempt:
  "(\<exists>call. snd (proxy_stream up req url ua) = [call]
      \<and> get_url call = url
      \<and> (\<forall>r. up call = Replied r \<and> status_code r \<noteq> 200 \<and> status_code r \<noteq> 206
            \<longrightarrow> fst (proxy_stream up req url ua)
                  = Inr (HttpResponseBadRequest (''Provider error: '' @ str_nat (status_code r))))
      \<and> (up call = Failed Timeout
            \<longrightarrow> fst (proxy_stream up req url ua) = Inr (HttpResponseBadRequest ''Provider timeout''))
      \<and> (up call = Failed ConnectionError
            \<longrightarrow> fst (proxy_stream up req url ua)
                  = Inr (HttpResponseBadRequest ''Provider connection error'')))
   \<and> length (snd (timeshift_proxy m tz db up req uname password stream_id timestamp duration)) \<le> 1"
proof -
  let ?headers = "case http_range req of
                       None \<Rightarrow> [(''User-Agent'', ua)]
                     | Some r \<Rightarrow> if r \<noteq> [] then AList.update ''Range'' r [(''User-Agent'', ua)]
                                else [(''User-Agent'', ua)]"
  let ?call = "\<lparr>get_url = url, get_headers = ?headers, get_stream = True, get_timeout = 10\<rparr>"
  have s: "snd (proxy_stream up req url ua) = [?call]"
    by (simp add: proxy_stream_def Let_def)
  have f: "fst (proxy_stream up req url ua)
           = (case up ?call of
            Replied r \<Rightarrow>
              if status_code r \<noteq> 200 \<and> status_code r \<noteq> 206
              then Inr (HttpResponseBadRequest (''Provider error: '' @ str_nat (status_code r)))
              else Inr (StreamingHttpResponse (status_code r)
                         (case header_get (response_headers r) ''Content-Type'' of
                            None \<Rightarrow> ''video/mp2t'' | Some t \<Rightarrow> t)
                         (copy_headers (response_headers r)
                            [''Content-Length'', ''Content-Range'', ''Accept-Ranges''] [])
                         (filter (\<lambda>chunk. chunk \<noteq> []) (response_chunks r)))
          | Failed Timeout \<Rightarrow> Inr (HttpResponseBadRequest ''Provider timeout'')
          | Failed ConnectionError \<Rightarrow> Inr (HttpResponseBadRequest ''Provider connection error'')
          | Failed RequestException \<Rightarrow> Inr (HttpResponseBadRequest ''Provider connection error'')
          | Crashed e \<Rightarrow> Inl e)"
    by (simp add: proxy_stream_def Let_def)
  have "snd (proxy_stream up req url ua) = [?call]
      \<and> get_url ?call = url
      \<and> (\<forall>r. up ?call = Replied r \<and> status_code r \<noteq> 200 \<and> status_code r \<noteq> 206
            \<longrightarrow> fst (proxy_stream up req url ua)
                  = Inr (HttpResponseBadRequest (''Provider error: '' @ str_nat (status_code r))))
      \<and> (up ?call = Failed Timeout
            \<longrightarrow> fst (proxy_stream up req url ua) = Inr (HttpResponseBadRequest ''Provider timeout''))
      \<and> (up ?call = Failed ConnectionError
            \<longrightarrow> fst (proxy_stream up req url ua)
                  = Inr (HttpResponseBadRequest ''Provider connection error''))"
    using s f by simp
  then show ?thesis
    using timeshift_proxy_at_most_once by blast
qed

lemma str_nat_404: "str_nat 404 = ''404''"
  by code_simp

theorem proxy_single_attempt_witness:
  "fst (proxy_stream (example_upstream 404) example_request ''http://provider.example:8080/x'' ''VLC/3.0'')
     = Inr (HttpResponseBadRequest ''Provider error: 404'')
   \<and> fst (proxy_stream (\<lambda>call. Failed Timeout) example_request ''http://provider.example:8080/x'' ''VLC/3.0'')
     = Inr (HttpResponseBadRequest ''Provider timeout'')
   \<and> fst (proxy_stream (\<lambda>call. Failed ConnectionError) example_request ''http://provider.example:8080/x'' ''VLC/3.0'')
     = Inr (HttpResponseBadRequest ''Provider connection error'')
   \<and> length (snd (proxy_stream (example_upstream 404) example_request ''http://provider.example:8080/x'' ''VLC/3.0'')) = 1"
proof -
  let ?m = "hooks_py (\<lambda>p. Inr (True, 120)) (Inr example_config)"
  let ?db = "example_store 1 0 (example_bag (PInt 1))"
  let ?url = "''http://provider.example:8080/x''"
  obtain c1 where c1: "snd (proxy_stream (example_upstream 404) example_request ?url ''VLC/3.0'') = [c1]"
    and r1: "\<forall>r. example_upstream 404 c1 = Replied r \<and> status_code r \<noteq> 200 \<and> status_code r \<noteq> 206
            \<longrightarrow> fst (proxy_stream (example_upstream 404) example_request ?url ''VLC/3.0'')
                  = Inr (HttpResponseBadRequest (''Provider error: '' @ str_nat (status_code r)))"
    using proxy_single_attempt [of "example_upstream 404" example_request ?url "''VLC/3.0''"
        ?m example_zones ?db "''john''" "''secret123''" "''155''" "''2025-01-15:14-30''" "''22371''"]
    by blast
  obtain c2 where r2: "(\<lambda>call. Failed Timeout) c2 = Failed Timeout
            \<longrightarrow> fst (proxy_stream (\<lambda>call. Failed Timeout) example_request ?url ''VLC/3.0'')
                  = Inr (HttpResponseBadRequest ''Provider timeout'')"
    using proxy_single_attempt [of "\<lambda>call. Failed Timeout" example_request ?url "''VLC/3.0''"
        ?m example_zones ?db "''john''" "''secret123''" "''155''" "''2025-01-15:14-30''" "''22371''"]
    by blast
  obtain c3 where r3: "(\<lambda>call. Failed ConnectionError) c3 = Failed ConnectionError
            \<longrightarrow> fst (proxy_stream (\<lambda>call. Failed ConnectionError) example_request ?url ''VLC/3.0'')
                  = Inr (HttpResponseBadRequest ''Provider connection error'')"
    using proxy_single_attempt [of "\<lambda>call. Failed ConnectionError" example_request ?url "''VLC/3.0''"
        ?m example_zones ?db "''john''" "''secret123''" "''155''" "''2025-01-15:14-30''" "''22371''"]
    by blast
  have "fst (proxy_stream (example_upstream 404) example_request ?url ''VLC/3.0'')
          = Inr (HttpResponseBadRequest ''Provider error: 404'')"
    using r1 [rule_format, of "\<lparr>status_code = 404, response_headers = [(''content-range'', ''bytes 1000-1004/5000'')],
              response_chunks = [''abc'', [], ''de'']\<rparr>"]
    by (simp add: example_upstream_def str_nat_404)
  with c1 r2 r3 show ?thesis by simp
qed

section \<open>Timestamp conversion\<close>

text \<open>
  Claim C10. \<^verbatim>\<open>_convert_timestamp_to_local\<close> is a function of the timestamp, the zone name
  and the zone database only, and of the database it reads no more than whether
  \<^verbatim>\<open>UTC\<close> exists and the entry of the named zone. A timestamp that
  \<^verbatim>\<open>strptime\<close> rejects, a zone that \<^verbatim>\<open>ZoneInfo\<close> rejects, and any other exception in the
  conversion give the timestamp back unchanged.
\<close>

theorem convert_timestamp_fallback:
  "(\<forall>e. strptime timestamp = Inl e
        \<longrightarrow> convert_timestamp_to_local tz timestamp timezone_str = timestamp)
   \<and> (tz timezone_str = None
        \<longrightarrow> convert_timestamp_to_local tz timestamp timezone_str = timestamp)
   \<and> (\<forall>e. convert_timestamp_try tz timestamp timezone_str = Inl e
        \<longrightarrow> convert_timestamp_to_local tz timestamp timezone_str = timestamp)
   \<and> ((tz ''UTC'' = None \<longleftrightarrow> tz' ''UTC'' = None) \<and> tz timezone_str = tz' timezone_str
        \<longrightarrow> convert_timestamp_to_local tz timestamp timezone_str
            = convert_timestamp_to_local tz' timestamp timezone_str)"
  by (auto simp add: convert_timestamp_to_local_def convert_timestamp_try_def
      split: sum.splits option.splits)

lemma strptime_malformed: "strptime ''2025-13-45:99-99'' = Inl ValueError"
  by (simp add: strptime_def timestamp_matches_def then_field_def field_Y_def field_m_def
      lit_def two_digits_def one_digit_def is_digit_def digit_val_def)

theorem convert_timestamp_fallback_witness:
  "strptime ''2025-13-45:99-99'' = Inl ValueError
   \<and> convert_timestamp_to_local example_zones ''2025-13-45:99-99'' ''Etc/GMT-1'' = ''2025-13-45:99-99''
   \<and> example_zones ''Mars/Olympus'' = None
   \<and> convert_timestamp_to_local example_zones ''2025-01-15:14-30'' ''Mars/Olympus'' = ''2025-01-15:14-30''"
  using strptime_malformed
    convert_timestamp_fallback [of "''2025-13-45:99-99''" example_zones "''Etc/GMT-1''"]
    convert_timestamp_fallback [of "''2025-01-15:14-30''" example_zones "''Mars/Olympus''"]
  by (simp add: example_zones_def)

text \<open>A conversion that succeeds: 14:30 UTC is 15:30 one hour east.\<close>

lemma strptime_example:
  "strptime ''2025-11-15:14-30''
   = Inr \<lparr>dt_year = 2025, dt_month = 11, dt_day = 15, dt_hour = 14, dt_minute = 30, dt_second = 0\<rparr>"
  by (simp add: strptime_def timestamp_matches_def then_field_def field_Y_def field_m_def
      field_d_def field_H_def field_M_def lit_def two_digits_def one_digit_def is_digit_def
      digit_val_def days_in_month_def)

lemma days_before_november: "days_before_month 2025 11 = 304" "days_before_month (Suc 0) 11 = 304"
  by code_simp+

lemma ymd2ord_example: "ymd2ord 2025 11 15 = 739570"
  by (simp add: ymd2ord_def days_before_year_def days_before_november)

lemma ord2ymd_example: "ord2ymd 739570 = (2025, 11, 15)"
  by (simp add: ord2ymd_def Let_def days_before_november)

lemma astimezone_example:
  "astimezone (\<lambda>t. 3600)
     \<lparr>dt_year = 2025, dt_month = 11, dt_day = 15, dt_hour = 14, dt_minute = 30, dt_second = 0\<rparr>
   = Inr \<lparr>dt_year = 2025, dt_month = 11, dt_day = 15, dt_hour = 15, dt_minute = 30, dt_second = 0\<rparr>"
  by (simp add: astimezone_def utc_seconds_def ymd2ord_example ord2ymd_example Let_def)

lemma strftime_example:
  "strftime \<lparr>dt_year = 2025, dt_month = 11, dt_day = 15, dt_hour = 15, dt_minute = 30, dt_second = 0\<rparr>
   = ''2025-11-15:15-30''"
  by code_simp

lemma strftime_year_999:
  "strftime \<lparr>dt_year = 999, dt_month = 1, dt_day = 1, dt_hour = 0, dt_minute = 0, dt_second = 0\<rparr>
   = ''999-01-01:00-00''"
  by code_simp

lemma convert_example:
  "convert_timestamp_to_local example_zones ''2025-11-15:14-30'' ''Etc/GMT-1'' = ''2025-11-15:15-30''"
  by (simp add: convert_timestamp_to_local_def convert_timestamp_try_def strptime_example
      example_zones_def astimezone_example strftime_example)

section \<open>Decorating the catalog\<close>

lemma map_of_update_other:
  "k \<noteq> k' \<Longrightarrow> map_of (AList.update k' v al) k = map_of al k"
  by (simp add: update_conv')

text \<open>The loop treats every entry on its own: no turn ends the loop.\<close>

lemma decorate_all_map: "decorate_all db es = map (\<lambda>x. snd (decorate_entry db x)) es"
  by (induction es) simp_all

lemma decorate_entry_skipped:
  assumes "fst (decorate_entry db e) = No_channel \<or> fst (decorate_entry db e) = No_first_stream"
  shows "snd (decorate_entry db e) = e"
  using assms
  by (auto simp add: decorate_entry_def Let_def split: sum.splits option.splits if_splits)

lemma decorate_entry_caught:
  assumes "fst (decorate_entry db e) = Caught err"
  shows "snd (decorate_entry db e) = e
         \<or> (\<exists>a. snd (decorate_entry db e) = AList.update ''tv_archive'' (PInt a) e)
         \<or> (\<exists>a d. snd (decorate_entry db e)
                      = AList.update ''tv_archive_duration'' (PInt d)
                          (AList.update ''tv_archive'' (PInt a) e))"
  using assms
  by (auto simp add: decorate_entry_def Let_def split: sum.splits option.splits if_splits)

lemma decorate_entry_caught_keys:
  assumes "fst (decorate_entry db e) = Caught err"
    and "k \<noteq> ''tv_archive''" and "k \<noteq> ''tv_archive_duration''"
  shows "map_of (snd (decorate_entry db e)) k = map_of e k"
  using decorate_entry_caught [OF assms(1)] assms(2,3)
  by (auto simp add: map_of_update_other)

lemma decorate_entry_first_conversion:
  assumes "channels_with_id_value db (dict_get e ''stream_id'') = Inl err
           \<or> (\<exists>chans ch fs. channels_with_id_value db (dict_get e ''stream_id'') = Inr chans
                 \<and> qs_first chans = Some ch
                 \<and> qs_first (channel_streams_by_order db ch) = Some fs
                 \<and> py_int (dict_get_default (or_empty (stream_properties fs)) ''tv_archive'' (PInt 0))
                     = Inl err)"
  shows "decorate_entry db e = (Caught err, e)"
  using assms by (auto simp add: decorate_entry_def Let_def)

text \<open>
  A failure at a later conversion finds the earlier assignments already made: the entry
  is a dictionary written in place.
\<close>

lemma decorate_entry_duration_conversion:
  assumes "channels_with_id_value db (dict_get e ''stream_id'') = Inr chans"
    and "qs_first chans = Some ch"
    and "qs_first (channel_streams_by_order db ch) = Some fs"
    and "py_int (dict_get_default (or_empty (stream_properties fs)) ''tv_archive'' (PInt 0)) = Inr a"
    and "py_int (dict_get_default (or_empty (stream_properties fs)) ''tv_archive_duration'' (PInt 0))
         = Inl err"
  shows "decorate_entry db e = (Caught err, AList.update ''tv_archive'' (PInt a) e)"
  using assms by (simp add: decorate_entry_def Let_def)

lemma decorate_entry_stream_id_conversion:
  assumes "channels_with_id_value db (dict_get e ''stream_id'') = Inr chans"
    and "qs_first chans = Some ch"
    and "qs_first (channel_streams_by_order db ch) = Some fs"
    and "py_int (dict_get_default (or_empty (stream_properties fs)) ''tv_archive'' (PInt 0)) = Inr a"
    and "py_int (dict_get_default (or_empty (stream_properties fs)) ''tv_archive_duration'' (PInt 0))
         = Inr d"
    and "truthy (dict_get (or_empty (stream_properties fs)) ''stream_id'')"
    and "py_int (dict_get (or_empty (stream_properties fs)) ''stream_id'') = Inl err"
  shows "decorate_entry db e
         = (Caught err,
            AList.update ''tv_archive_duration'' (PInt d) (AList.update ''tv_archive'' (PInt a) e))"
  using assms by (simp add: decorate_entry_def Let_def)

lemma written_fields:
  "map_of (AList.update ''tv_archive'' v e) ''tv_archive'' = Some v"
  "map_of (AList.update ''tv_archive_duration'' w (AList.update ''tv_archive'' v e)) ''tv_archive''
   = Some v"
  "map_of (AList.update ''tv_archive_duration'' w (AList.update ''tv_archive'' v e))
     ''tv_archive_duration'' = Some w"
  by (simp_all add: update_conv')

text \<open>
  Claim C4, as amended. An entry whose channel or first stream is missing is left exactly
  as the original function produced it, and so is an entry whose channel lookup or
  \<^verbatim>\<open>tv_archive\<close> conversion raises. An entry whose \<^verbatim>\<open>tv_archive_duration\<close> conversion
  raises is the original with \<^verbatim>\<open>tv_archive\<close> written; an entry whose provider
  \<^verbatim>\<open>stream_id\<close> conversion raises is the original with \<^verbatim>\<open>tv_archive\<close> and
  \<^verbatim>\<open>tv_archive_duration\<close> written. Whatever raised, every other key, \<^verbatim>\<open>stream_id\<close> among
  them, keeps its value. In every case the loop goes on: the listing is the original list
  with each entry decorated on its own.
\<close>

theorem decoration_failure:
  "(fst (decorate_entry db e) = No_channel \<or> fst (decorate_entry db e) = No_first_stream
      \<longrightarrow> snd (decorate_entry db e) = e)
   \<and> (channels_with_id_value db (dict_get e ''stream_id'') = Inl err
        \<or> (\<exists>chans ch fs. channels_with_id_value db (dict_get e ''stream_id'') = Inr chans
              \<and> qs_first chans = Some ch
              \<and> qs_first (channel_streams_by_order db ch) = Some fs
              \<and> py_int (dict_get_default (or_empty (stream_properties fs)) ''tv_archive'' (PInt 0))
                  = Inl err)
      \<longrightarrow> decorate_entry db e = (Caught err, e))
   \<and> (fst (decorate_entry db e) = Caught err
      \<longrightarrow> (snd (decorate_entry db e) = e
           \<or> (\<exists>a. snd (decorate_entry db e) = AList.update ''tv_archive'' (PInt a) e)
           \<or> (\<exists>a d. snd (decorate_entry db e)
                        = AList.update ''tv_archive_duration'' (PInt d)
                            (AList.update ''tv_archive'' (PInt a) e)))
          \<and> (\<forall>k. k \<noteq> ''tv_archive'' \<and> k \<noteq> ''tv_archive_duration''
                 \<longrightarrow> map_of (snd (decorate_entry db e)) k = map_of e k))
   \<and> decorate_all db es = map (\<lambda>x. snd (decorate_entry db x)) es
   \<and> (is_plugin_enabled rd
      \<longrightarrow> patched_xc_get_live_streams rd db (Inr es)
          = Inr (map (\<lambda>x. snd (decorate_entry db x)) es))
   \<and> (\<forall>chans ch fs a.
         channels_with_id_value db (dict_get e ''stream_id'') = Inr chans
         \<and> qs_first chans = Some ch
         \<and> qs_first (channel_streams_by_order db ch) = Some fs
         \<and> py_int (dict_get_default (or_empty (stream_properties fs)) ''tv_archive'' (PInt 0))
             = Inr a
         \<and> py_int (dict_get_default (or_empty (stream_properties fs)) ''tv_archive_duration'' (PInt 0))
             = Inl err
       \<longrightarrow> decorate_entry db e = (Caught err, AList.update ''tv_archive'' (PInt a) e)
           \<and> map_of (snd (decorate_entry db e)) ''tv_archive'' = Some (PInt a))
   \<and> (\<forall>chans ch fs a d.
         channels_with_id_value db (dict_get e ''stream_id'') = Inr chans
         \<and> qs_first chans = Some ch
         \<and> qs_first (channel_streams_by_order db ch) = Some fs
         \<and> py_int (dict_get_default (or_empty (stream_properties fs)) ''tv_archive'' (PInt 0))
             = Inr a
         \<and> py_int (dict_get_default (or_empty (stream_properties fs)) ''tv_archive_duration'' (PInt 0))
             = Inr d
         \<and> truthy (dict_get (or_empty (stream_properties fs)) ''stream_id'')
         \<and> py_int (dict_get (or_empty (stream_properties fs)) ''stream_id'') = Inl err
       \<longrightarrow> decorate_entry db e
             = (Caught err,
                AList.update ''tv_archive_duration'' (PInt d)
                  (AList.update ''tv_archive'' (PInt a) e))
           \<and> map_of (snd (decorate_entry db e)) ''tv_archive'' = Some (PInt a)
           \<and> map_of (snd (decorate_entry db e)) ''tv_archive_duration'' = Some (PInt d))"
proof (intro conjI)
  show "fst (decorate_entry db e) = No_channel \<or> fst (decorate_entry db e) = No_first_stream
      \<longrightarrow> snd (decorate_entry db e) = e"
    by (simp add: decorate_entry_skipped)
next
  show "channels_with_id_value db (dict_get e ''stream_id'') = Inl err
        \<or> (\<exists>chans ch fs. channels_with_id_value db (dict_get e ''stream_id'') = Inr chans
              \<and> qs_first chans = Some ch
              \<and> qs_first (channel_streams_by_order db ch) = Some fs
              \<and> py_int (dict_get_default (or_empty (stream_properties fs)) ''tv_archive'' (PInt 0))
                  = Inl err)
      \<longrightarrow> decorate_entry db e = (Caught err, e)"
    using decorate_entry_first_conversion [of db e err] by (intro impI)
next
  show "fst (decorate_entry db e) = Caught err
      \<longrightarrow> (snd (decorate_entry db e) = e
           \<or> (\<exists>a. snd (decorate_entry db e) = AList.update ''tv_archive'' (PInt a) e)
           \<or> (\<exists>a d. snd (decorate_entry db e)
                        = AList.update ''tv_archive_duration'' (PInt d)
                            (AList.update ''tv_archive'' (PInt a) e)))
          \<and> (\<forall>k. k \<noteq> ''tv_archive'' \<and> k \<noteq> ''tv_archive_duration''
                 \<longrightarrow> map_of (snd (decorate_entry db e)) k = map_of e k)"
  proof (intro impI conjI allI)
    assume c: "fst (decorate_entry db e) = Caught err"
    then show "snd (decorate_entry db e) = e
           \<or> (\<exists>a. snd (decorate_entry db e) = AList.update ''tv_archive'' (PInt a) e)
           \<or> (\<exists>a d. snd (decorate_entry db e)
                        = AList.update ''tv_archive_duration'' (PInt d)
                            (AList.update ''tv_archive'' (PInt a) e))"
      by (rule decorate_entry_caught)
    fix k
    assume "k \<noteq> ''tv_archive'' \<and> k \<noteq> ''tv_archive_duration''"
    with c show "map_of (snd (decorate_entry db e)) k = map_of e k"
      by (simp add: decorate_entry_caught_keys)
  qed
next
  show "decorate_all db es = map (\<lambda>x. snd (decorate_entry db x)) es"
    by (rule decorate_all_map)
next
  show "is_plugin_enabled rd
      \<longrightarrow> patched_xc_get_live_streams rd db (Inr es)
          = Inr (map (\<lambda>x. snd (decorate_entry db x)) es)"
    by (simp add: patched_xc_get_live_streams_def decorate_all_map)
next
  show "\<forall>chans ch fs a.
         channels_with_id_value db (dict_get e ''stream_id'') = Inr chans
         \<and> qs_first chans = Some ch
         \<and> qs_first (channel_streams_by_order db ch) = Some fs
         \<and> py_int (dict_get_default (or_empty (stream_properties fs)) ''tv_archive'' (PInt 0))
             = Inr a
         \<and> py_int (dict_get_default (or_empty (stream_properties fs)) ''tv_archive_duration'' (PInt 0))
             = Inl err
       \<longrightarrow> decorate_entry db e = (Caught err, AList.update ''tv_archive'' (PInt a) e)
           \<and> map_of (snd (decorate_entry db e)) ''tv_archive'' = Some (PInt a)"
    by (simp add: decorate_entry_duration_conversion written_fields)
next
  show "\<forall>chans ch fs a d.
         channels_with_id_value db (dict_get e ''stream_id'') = Inr chans
         \<and> qs_first chans = Some ch
         \<and> qs_first (channel_streams_by_order db ch) = Some fs
         \<and> py_int (dict_get_default (or_empty (stream_properties fs)) ''tv_archive'' (PInt 0))
             = Inr a
         \<and> py_int (dict_get_default (or_empty (stream_properties fs)) ''tv_archive_duration'' (PInt 0))
             = Inr d
         \<and> truthy (dict_get (or_empty (stream_properties fs)) ''stream_id'')
         \<and> py_int (dict_get (or_empty (stream_properties fs)) ''stream_id'') = Inl err
       \<longrightarrow> decorate_entry db e
             = (Caught err,
                AList.update ''tv_archive_duration'' (PInt d)
                  (AList.update ''tv_archive'' (PInt a) e))
           \<and> map_of (snd (decorate_entry db e)) ''tv_archive'' = Some (PInt a)
           \<and> map_of (snd (decorate_entry db e)) ''tv_archive_duration'' = Some (PInt d)"
    by (simp add: decorate_entry_stream_id_conversion written_fields)
qed

text \<open>The installation with a malformed duration, and an entry for a channel that is not there.\<close>

lemma qs_first_simps: "qs_first [] = None" "qs_first (x # xs) = Some x"
  by (simp_all add: qs_first_def)

lemma example_first_stream:
  "qs_first (channel_streams_by_order (example_store ul cl bag) (example_channel cl))
   = Some (example_stream bag)"
  by (simp add: channel_streams_by_order_def qs_first_def example_store_def example_channel_def
      example_stream_def)

lemma example_channel_by_value:
  "channels_with_id_value (example_store ul cl bag) (PInt 155) = Inr [example_channel cl]"
  by (simp add: channels_with_id_value_def channels_with_id_def example_store_def
      example_channel_def)

lemma int_of_str_7_days: "int_of_str ''7 days'' = Inl ValueError"
  by (simp add: int_of_str_def strip_def is_space_def is_digit_def)

lemma decorate_malformed_duration:
  "decorate_entry (example_store 1 0 example_malformed_bag) (example_entry 155)
   = (Caught ValueError,
      [(''name'', PStr ''News''), (''stream_id'', PInt 155), (''tv_archive'', PInt 1)])"
  by (simp add: decorate_entry_def dict_get_def dict_get_default_def example_channel_by_value
      example_first_stream qs_first_simps or_empty_def example_stream_def int_of_str_7_days
      example_entry_def example_malformed_bag_def)

lemma decorate_unknown_channel:
  "decorate_entry (example_store 1 0 example_malformed_bag) (example_entry 999)
   = (No_channel, example_entry 999)"
  by (simp add: decorate_entry_def dict_get_def channels_with_id_value_def channels_with_id_def
      qs_first_simps example_store_def example_channel_def example_entry_def)

text \<open>
  The claim as stated fails: the conversion of \<^verbatim>\<open>tv_archive_duration\<close> raises after
  \<^verbatim>\<open>tv_archive\<close> has been written into the entry, and the entry keeps the new key.
\<close>

theorem malformed_duration_leaves_tv_archive:
  "fst (decorate_entry (example_store 1 0 example_malformed_bag) (example_entry 155))
     = Caught ValueError
   \<and> snd (decorate_entry (example_store 1 0 example_malformed_bag) (example_entry 155))
     \<noteq> example_entry 155
   \<and> map_of (example_entry 155) ''tv_archive'' = None
   \<and> map_of (snd (decorate_entry (example_store 1 0 example_malformed_bag) (example_entry 155)))
        ''tv_archive'' = Some (PInt 1)"
  by (simp add: decorate_malformed_duration) (simp add: example_entry_def)

lemma example_bag_conversions:
  "py_int (dict_get_default (or_empty (stream_properties (example_stream example_malformed_bag)))
      ''tv_archive'' (PInt 0)) = Inr 1"
  "py_int (dict_get_default (or_empty (stream_properties (example_stream example_malformed_bag)))
      ''tv_archive_duration'' (PInt 0)) = Inl ValueError"
  by (simp_all add: example_stream_def example_malformed_bag_def or_empty_def
      dict_get_default_def int_of_str_7_days)

lemma int_of_str_7: "int_of_str ''7'' = Inr 7"
  by (simp add: int_of_str_def strip_def is_space_def is_digit_def digit_val_def)

lemma int_of_str_22371x: "int_of_str ''22371x'' = Inl ValueError"
  by (simp add: int_of_str_def strip_def is_space_def is_digit_def digit_val_def)

lemma example_id_bag_conversions:
  "py_int (dict_get_default (or_empty (stream_properties (example_stream example_malformed_id_bag)))
      ''tv_archive'' (PInt 0)) = Inr 1"
  "py_int (dict_get_default (or_empty (stream_properties (example_stream example_malformed_id_bag)))
      ''tv_archive_duration'' (PInt 0)) = Inr 7"
  "truthy (dict_get (or_empty (stream_properties (example_stream example_malformed_id_bag)))
      ''stream_id'')"
  "py_int (dict_get (or_empty (stream_properties (example_stream example_malformed_id_bag)))
      ''stream_id'') = Inl ValueError"
  by (simp_all add: example_stream_def example_malformed_id_bag_def or_empty_def
      dict_get_default_def dict_get_def int_of_str_7 int_of_str_22371x)

lemma example_entry_channel:
  "channels_with_id_value (example_store ul cl bag) (dict_get (example_entry 155) ''stream_id'')
   = Inr [example_channel cl]"
  by (simp add: example_entry_def dict_get_def example_channel_by_value)

theorem decoration_failure_witness:
  "fst (decorate_entry (example_store 1 0 example_malformed_bag) (example_entry 999)) = No_channel
   \<and> snd (decorate_entry (example_store 1 0 example_malformed_bag) (example_entry 999))
     = example_entry 999
   \<and> fst (decorate_entry (example_store 1 0 example_malformed_bag) (example_entry 155))
     = Caught ValueError
   \<and> map_of (snd (decorate_entry (example_store 1 0 example_malformed_bag) (example_entry 155)))
        ''stream_id'' = map_of (example_entry 155) ''stream_id''
   \<and> is_plugin_enabled (Inr True)
   \<and> patched_xc_get_live_streams (Inr True) (example_store 1 0 example_malformed_bag)
        (Inr [example_entry 155, example_entry 999])
     = Inr [[(''name'', PStr ''News''), (''stream_id'', PInt 155), (''tv_archive'', PInt 1)],
            example_entry 999]
   \<and> decorate_entry (example_store 1 0 example_malformed_bag) (example_entry 155)
     = (Caught ValueError, AList.update ''tv_archive'' (PInt 1) (example_entry 155))
   \<and> map_of (snd (decorate_entry (example_store 1 0 example_malformed_bag) (example_entry 155)))
        ''tv_archive'' = Some (PInt 1)
   \<and> decorate_entry (example_store 1 0 example_malformed_id_bag) (example_entry 155)
     = (Caught ValueError,
        AList.update ''tv_archive_duration'' (PInt 7)
          (AList.update ''tv_archive'' (PInt 1) (example_entry 155)))
   \<and> map_of (snd (decorate_entry (example_store 1 0 example_malformed_id_bag) (example_entry 155)))
        ''tv_archive_duration'' = Some (PInt 7)"
proof -
  have e: "is_plugin_enabled (Inr True)"
    by (simp add: is_plugin_enabled_def)
  have n: "fst (decorate_entry (example_store 1 0 example_malformed_bag) (example_entry 999)) = No_channel"
    by (simp add: decorate_unknown_channel)
  have c: "fst (decorate_entry (example_store 1 0 example_malformed_bag) (example_entry 155))
     = Caught ValueError"
    by (simp add: decorate_malformed_duration)
  have k: "''stream_id'' \<noteq> ''tv_archive'' \<and> ''stream_id'' \<noteq> ''tv_archive_duration''"
    by simp
  note t1 = decoration_failure [of "example_store 1 0 example_malformed_bag" "example_entry 999"
      ValueError "[example_entry 155, example_entry 999]" "Inr True"]
  note t2 = decoration_failure [of "example_store 1 0 example_malformed_bag" "example_entry 155"
      ValueError "[example_entry 155, example_entry 999]" "Inr True"]
  note t3 = decoration_failure [of "example_store 1 0 example_malformed_id_bag" "example_entry 155"
      ValueError "[example_entry 155, example_entry 999]" "Inr True"]
  have 1: "snd (decorate_entry (example_store 1 0 example_malformed_bag) (example_entry 999))
     = example_entry 999"
    by (rule t1 [THEN conjunct1, THEN mp]) (rule disjI1, rule n)
  have 2: "map_of (snd (decorate_entry (example_store 1 0 example_malformed_bag) (example_entry 155)))
        ''stream_id'' = map_of (example_entry 155) ''stream_id''"
    by (rule t2 [THEN conjunct2, THEN conjunct2, THEN conjunct1, THEN mp, OF c, THEN conjunct2,
          THEN spec, THEN mp, OF k])
  have 3: "patched_xc_get_live_streams (Inr True) (example_store 1 0 example_malformed_bag)
        (Inr [example_entry 155, example_entry 999])
     = Inr (map (\<lambda>x. snd (decorate_entry (example_store 1 0 example_malformed_bag) x))
              [example_entry 155, example_entry 999])"
    by (rule t2 [THEN conjunct2, THEN conjunct2, THEN conjunct2, THEN conjunct2, THEN conjunct1,
          THEN mp, OF e])
  have 4: "map (\<lambda>x. snd (decorate_entry (example_store 1 0 example_malformed_bag) x))
              [example_entry 155, example_entry 999]
           = [[(''name'', PStr ''News''), (''stream_id'', PInt 155), (''tv_archive'', PInt 1)],
              example_entry 999]"
    by (simp add: decorate_malformed_duration decorate_unknown_channel)
  have h5: "channels_with_id_value (example_store 1 0 example_malformed_bag)
              (dict_get (example_entry 155) ''stream_id'') = Inr [example_channel 0]
         \<and> qs_first [example_channel 0] = Some (example_channel 0)
         \<and> qs_first (channel_streams_by_order (example_store 1 0 example_malformed_bag)
              (example_channel 0)) = Some (example_stream example_malformed_bag)
         \<and> py_int (dict_get_default (or_empty (stream_properties (example_stream example_malformed_bag)))
              ''tv_archive'' (PInt 0)) = Inr 1
         \<and> py_int (dict_get_default (or_empty (stream_properties (example_stream example_malformed_bag)))
              ''tv_archive_duration'' (PInt 0)) = Inl ValueError"
    by (simp only: example_entry_channel qs_first_simps example_first_stream
        example_bag_conversions simp_thms)
  note 5 = t2 [THEN conjunct2, THEN conjunct2, THEN conjunct2, THEN conjunct2, THEN conjunct2,
      THEN conjunct1, THEN spec, THEN spec, THEN spec, THEN spec, THEN mp, OF h5]
  have h6: "channels_with_id_value (example_store 1 0 example_malformed_id_bag)
              (dict_get (example_entry 155) ''stream_id'') = Inr [example_channel 0]
         \<and> qs_first [example_channel 0] = Some (example_channel 0)
         \<and> qs_first (channel_streams_by_order (example_store 1 0 example_malformed_id_bag)
              (example_channel 0)) = Some (example_stream example_malformed_id_bag)
         \<and> py_int (dict_get_default (or_empty (stream_properties (example_stream example_malformed_id_bag)))
              ''tv_archive'' (PInt 0)) = Inr 1
         \<and> py_int (dict_get_default (or_empty (stream_properties (example_stream example_malformed_id_bag)))
              ''tv_archive_duration'' (PInt 0)) = Inr 7
         \<and> truthy (dict_get (or_empty (stream_properties (example_stream example_malformed_id_bag)))
              ''stream_id'')
         \<and> py_int (dict_get (or_empty (stream_properties (example_stream example_malformed_id_bag)))
              ''stream_id'') = Inl ValueError"
    by (simp only: example_entry_channel qs_first_simps example_first_stream
        example_id_bag_conversions simp_thms)
  note 6 = t3 [THEN conjunct2, THEN conjunct2, THEN conjunct2, THEN conjunct2, THEN conjunct2,
      THEN conjunct2, THEN spec, THEN spec, THEN spec, THEN spec, THEN spec, THEN mp, OF h6]
  from e n c 1 2 3 4 5 6 show ?thesis
    by (simp add: written_fields)
qed

section \<open>Identifier resolution\<close>

lemma lookup_channel_by_provider_id:
  assumes "qs_first (xc_streams_with_id db s) = Some st"
    and "qs_first (stream_channels db st) = Some ch"
  shows "lookup_channel db usr s = Some ch"
    and "find_channel_by_provider_stream_id db s = Some (ch, st)"
  using assms by (simp_all add: lookup_channel_def find_channel_by_provider_stream_id_def)

lemma lookup_channel_fallback:
  assumes "qs_first (xc_streams_with_id db s) = None
           \<or> (\<exists>st. qs_first (xc_streams_with_id db s) = Some st
                  \<and> qs_first (stream_channels db st) = None)"
  shows "find_channel_by_provider_stream_id db s = None"
    and "lookup_channel db usr s
         = (case int_of_str s of Inl e \<Rightarrow> None | Inr n \<Rightarrow> internal_id_lookup db usr n)"
  using assms by (auto simp add: lookup_channel_def find_channel_by_provider_stream_id_def)

lemma internal_id_lookup_cases:
  "internal_id_lookup db usr n
   = (if 10 \<le> user_level usr then qs_first (filter (\<lambda>c. channel_pk c = n) (channel_table db))
      else if channel_profiles usr = []
      then qs_first (filter (\<lambda>c. channel_pk c = n \<and> channel_user_level c \<le> user_level usr)
                       (channel_table db))
      else qs_first (filter (\<lambda>c. channel_pk c = n
                                  \<and> has_enabled_membership db (channel_profiles usr) c
                                  \<and> channel_user_level c \<le> user_level usr)
                       (channel_table db)))"
  by (simp add: internal_id_lookup_def channels_with_id_def)

text \<open>
  Claim C6, as amended. The branches are tried in order and the first that yields a
  channel wins. (1) When the first XC stream whose bag holds the input string as
  \<^verbatim>\<open>stream_id\<close> has a channel, the result is that stream's first channel, in the live
  path and, with the stream, in the timeshift handler. (2) Otherwise, that is when no such
  stream exists or that stream has no channel, the timeshift handler finds nothing, and
  the live path reads the input as a base-10 integer: a failure to parse ends the lookup
  with nothing; an internal id gives the channel with that id, unfiltered for a user of
  level 10 or more, filtered by the user's level alone for a lower user without channel
  profiles, and filtered by an enabled membership in one of the user's profiles and by
  the user's level for a lower user with profiles.
\<close>

theorem identifier_resolution:
  "(qs_first (xc_streams_with_id db s) = Some st \<and> qs_first (stream_channels db st) = Some ch
      \<longrightarrow> lookup_channel db usr s = Some ch
          \<and> find_channel_by_provider_stream_id db s = Some (ch, st))
   \<and> (qs_first (xc_streams_with_id db s) = None
        \<or> (\<exists>st'. qs_first (xc_streams_with_id db s) = Some st'
                 \<and> qs_first (stream_channels db st') = None)
      \<longrightarrow> find_channel_by_provider_stream_id db s = None
          \<and> (\<forall>e. int_of_str s = Inl e \<longrightarrow> lookup_channel db usr s = None)
          \<and> (\<forall>n. int_of_str s = Inr n \<longrightarrow>
                lookup_channel db usr s
                = (if 10 \<le> user_level usr
                   then qs_first (filter (\<lambda>c. channel_pk c = n) (channel_table db))
                   else if channel_profiles usr = []
                   then qs_first (filter (\<lambda>c. channel_pk c = n
                                              \<and> channel_user_level c \<le> user_level usr)
                                    (channel_table db))
                   else qs_first (filter (\<lambda>c. channel_pk c = n
                                              \<and> has_enabled_membership db (channel_profiles usr) c
                                              \<and> channel_user_level c \<le> user_level usr)
                                    (channel_table db)))))"
proof (intro conjI impI allI)
  assume "qs_first (xc_streams_with_id db s) = Some st \<and> qs_first (stream_channels db st) = Some ch"
  then show "lookup_channel db usr s = Some ch"
    and "find_channel_by_provider_stream_id db s = Some (ch, st)"
    by (simp_all add: lookup_channel_by_provider_id)
next
  assume h: "qs_first (xc_streams_with_id db s) = None
        \<or> (\<exists>st'. qs_first (xc_streams_with_id db s) = Some st'
                 \<and> qs_first (stream_channels db st') = None)"
  show "find_channel_by_provider_stream_id db s = None"
    by (rule lookup_channel_fallback(1) [OF h])
  {
    fix e
    assume "int_of_str s = Inl e"
    then show "lookup_channel db usr s = None"
      by (simp add: lookup_channel_fallback(2) [OF h])
  }
  {
    fix n
    assume "int_of_str s = Inr n"
    then show "lookup_channel db usr s
                = (if 10 \<le> user_level usr
                   then qs_first (filter (\<lambda>c. channel_pk c = n) (channel_table db))
                   else if channel_profiles usr = []
                   then qs_first (filter (\<lambda>c. channel_pk c = n
                                              \<and> channel_user_level c \<le> user_level usr)
                                    (channel_table db))
                   else qs_first (filter (\<lambda>c. channel_pk c = n
                                              \<and> has_enabled_membership db (channel_profiles usr) c
                                              \<and> channel_user_level c \<le> user_level usr)
                                    (channel_table db)))"
      by (simp only: lookup_channel_fallback(2) [OF h] sum.case internal_id_lookup_cases)
  }
qed

text \<open>
  The parse of the internal id follows \<^verbatim>\<open>int\<close>: a no-break space around the digits is
  stripped, a file separator (code 28) is not.
\<close>

lemma int_of_str_no_break_space: "int_of_str (CHR 0xA0 # ''155'') = Inr 155"
  by (simp add: int_of_str_def strip_def is_space_def is_digit_def digit_val_def)

lemma int_of_str_file_separator: "int_of_str (CHR 0x1C # ''155'') = Inl ValueError"
  by (simp add: int_of_str_def strip_def is_space_def is_digit_def digit_val_def)

text \<open>The installation holds no stream with the provider's id 155; channel 155 has no membership.\<close>

lemma example_no_stream_155:
  "qs_first (xc_streams_with_id (example_store ul cl (example_bag a)) ''155'') = None"
  by (simp add: xc_streams_with_id_def is_xc_stream_with_id_def qs_first_simps example_store_def
      example_stream_def example_bag_def)

lemma int_of_str_155: "int_of_str ''155'' = Inr 155"
  by (simp add: int_of_str_def strip_def is_space_def is_digit_def digit_val_def)

lemma example_lookup_155:
  "lookup_channel (example_store 1 0 (example_bag (PInt 1))) (example_user 1) ''155''
   = Some (example_channel 0)"
  by (simp add: lookup_channel_def example_no_stream_155 int_of_str_155 internal_id_lookup_def
      example_user_def) (simp add: example_store_def example_channel_def qs_first_simps)

text \<open>
  The claim as stated fails: \<^verbatim>\<open>john\<close>, of level 1 and with no channel profile, asks for
  the internal id 155. The code returns the channel, which has no profile membership at
  all; the resolution as specified, filtering by membership, returns nothing.
\<close>

theorem no_profile_user_resolves_without_membership:
  "lookup_channel (example_store 1 0 (example_bag (PInt 1))) (example_user 1) ''155''
     = Some (example_channel 0)
   \<and> lookup_as_specified (example_store 1 0 (example_bag (PInt 1))) (example_user 1) ''155''
     = None
   \<and> user_level (example_user 1) < 10
   \<and> \<not> has_enabled_membership (example_store 1 0 (example_bag (PInt 1)))
         (channel_profiles (example_user 1)) (example_channel 0)"
proof -
  have "lookup_as_specified (example_store 1 0 (example_bag (PInt 1))) (example_user 1) ''155''
     = None"
    by (simp add: lookup_as_specified_def example_no_stream_155 int_of_str_155
        has_enabled_membership_def example_user_def)
       (simp add: example_store_def qs_first_simps)
  moreover have "\<not> has_enabled_membership (example_store 1 0 (example_bag (PInt 1)))
         (channel_profiles (example_user 1)) (example_channel 0)"
    by (simp add: has_enabled_membership_def example_store_def)
  moreover have "user_level (example_user 1) < 10"
    by (simp add: example_user_def)
  ultimately show ?thesis
    using example_lookup_155 by simp
qed

lemma example_first_xc_stream:
  "qs_first (xc_streams_with_id (example_store ul cl (example_bag a)) ''22371'')
   = Some (example_stream (example_bag a))"
  by (simp add: xc_streams_with_id_def is_xc_stream_with_id_def qs_first_simps example_store_def
      example_stream_def example_bag_def example_account_def)

lemma example_stream_channel:
  "qs_first (stream_channels (example_store ul cl bag) (example_stream bag'))
   = Some (example_channel cl)"
  by (simp add: stream_channels_def qs_first_simps example_store_def example_stream_def
      example_channel_def)

theorem identifier_resolution_witness:
  "qs_first (xc_streams_with_id (example_store 1 0 (example_bag (PInt 1))) ''22371'')
     = Some (example_stream (example_bag (PInt 1)))
   \<and> lookup_channel (example_store 1 0 (example_bag (PInt 1))) (example_user 1) ''22371''
     = Some (example_channel 0)
   \<and> find_channel_by_provider_stream_id (example_store 1 0 (example_bag (PInt 1))) ''22371''
     = Some (example_channel 0, example_stream (example_bag (PInt 1)))
   \<and> qs_first (xc_streams_with_id (example_store 1 0 (example_bag (PInt 1))) ''155'') = None
   \<and> int_of_str ''155'' = Inr 155
   \<and> find_channel_by_provider_stream_id (example_store 1 0 (example_bag (PInt 1))) ''155'' = None
   \<and> lookup_channel (example_store 1 0 (example_bag (PInt 1))) (example_user 1) ''155''
     = qs_first (filter (\<lambda>c. channel_pk c = 155 \<and> channel_user_level c \<le> 1)
                  (channel_table (example_store 1 0 (example_bag (PInt 1)))))"
proof -
  let ?db = "example_store 1 0 (example_bag (PInt 1))"
  have a: "qs_first (xc_streams_with_id ?db ''22371'') = Some (example_stream (example_bag (PInt 1)))
           \<and> qs_first (stream_channels ?db (example_stream (example_bag (PInt 1))))
             = Some (example_channel 0)"
    by (simp add: example_first_xc_stream example_stream_channel)
  have b: "qs_first (xc_streams_with_id ?db ''155'') = None
           \<or> (\<exists>st'. qs_first (xc_streams_with_id ?db ''155'') = Some st'
                 \<and> qs_first (stream_channels ?db st') = None)"
    by (simp add: example_no_stream_155)
  note t1 = identifier_resolution [of ?db "''22371''" "example_stream (example_bag (PInt 1))"
      "example_channel 0" "example_user 1"]
  note t2 = identifier_resolution [of ?db "''155''" "example_stream (example_bag (PInt 1))"
      "example_channel 0" "example_user 1"]
  note r1 = t1 [THEN conjunct1, THEN mp, OF a]
  note r2 = t2 [THEN conjunct2, THEN mp, OF b]
  note r3 = r2 [THEN conjunct2, THEN conjunct2, THEN spec, THEN mp, OF int_of_str_155]
  have u: "\<not> 10 \<le> user_level (example_user 1)" "channel_profiles (example_user 1) = []"
    "user_level (example_user 1) = 1"
    by (simp_all add: example_user_def)
  from r1 r2 [THEN conjunct1] r3 u a example_no_stream_155 int_of_str_155 show ?thesis
    by simp
qed

section \<open>Installing twice\<close>

text \<open>Removing hooks that were never installed changes nothing.\<close>

lemma uninstall_without_install:
  assumes "original_xc_get_live_streams st = None" and "original_stream_xc st = None"
    and "original_resolve st = None"
  shows "uninstall_hooks st = st"
  using assms
  by (simp add: uninstall_hooks_def restore_xc_get_live_streams_def restore_stream_xc_def
      restore_url_resolver_def)

lemma uninstall_on_host_state: "uninstall_hooks (host_state patterns) = host_state patterns"
  by (rule uninstall_without_install) (simp_all add: host_state_def)

text \<open>Of the three patch functions only \<^verbatim>\<open>_patch_url_resolver\<close> checks its saved original first.\<close>

lemma patch_url_resolver_twice:
  "patch_url_resolver (patch_url_resolver st) = patch_url_resolver st"
  by (simp add: patch_url_resolver_def)

text \<open>
  One installation on the example host, and a second one on top of it. After the first,
  a call of the catalog listing goes through one wrapper to the host's function.
\<close>

lemma first_install:
  "snd (install_hooks (host_state example_urlpatterns))
   = \<lparr>attr_xc_get_live_streams = Patched_xc_get_live_streams 0,
      attr_stream_xc = Patched_stream_xc 1,
      attr_resolve = Patched_resolve 2,
      urlpatterns = [Some (Patched_stream_xc 1), None, Some (Host ''handle_404'')],
      original_xc_get_live_streams = Some (Host ''xc_get_live_streams''),
      original_stream_xc = Some (Host ''stream_xc''),
      original_url_callbacks = [(0, Host ''stream_xc'')],
      original_resolve = Some (Host ''URLResolver.resolve''),
      wrappers_made = 3\<rparr>"
  by (simp add: install_hooks_def host_state_def example_urlpatterns_def
      patch_xc_get_live_streams_def patch_stream_xc_def patch_url_resolver_def Let_def
      numeral_3_eq_3)

lemma second_install:
  "snd (install_hooks (snd (install_hooks (host_state example_urlpatterns))))
   = \<lparr>attr_xc_get_live_streams = Patched_xc_get_live_streams 3,
      attr_stream_xc = Patched_stream_xc 4,
      attr_resolve = Patched_resolve 2,
      urlpatterns = [Some (Patched_stream_xc 4), None, Some (Host ''handle_404'')],
      original_xc_get_live_streams = Some (Patched_xc_get_live_streams 0),
      original_stream_xc = Some (Patched_stream_xc 1),
      original_url_callbacks = [(0, Patched_stream_xc 1)],
      original_resolve = Some (Host ''URLResolver.resolve''),
      wrappers_made = 5\<rparr>"
  by (simp add: first_install) (simp add: install_hooks_def
      patch_xc_get_live_streams_def patch_stream_xc_def patch_url_resolver_def Let_def
      eval_nat_numeral)

lemma first_install_delegates:
  "call_chain (Suc (Suc limit)) (snd (install_hooks (host_state example_urlpatterns)))
     (attr_xc_get_live_streams (snd (install_hooks (host_state example_urlpatterns))))
   = Inr [Patched_xc_get_live_streams 0, Host ''xc_get_live_streams'']"
  by (simp add: first_install)

text \<open>
  A wrapper whose global holds a wrapper of the same kind never reaches the host: each
  call reads the same global again.
\<close>

lemma xc_wrapper_calls_itself:
  assumes "original_xc_get_live_streams st = Some (Patched_xc_get_live_streams j)"
  shows "call_chain limit st (Patched_xc_get_live_streams k) = Inl RecursionError"
  using assms by (induction limit arbitrary: k) simp_all

lemma stream_xc_wrapper_calls_itself:
  assumes "original_stream_xc st = Some (Patched_stream_xc j)"
  shows "call_chain limit st (Patched_stream_xc k) = Inl RecursionError"
  using assms by (induction limit arbitrary: k) simp_all

text \<open>
  Claim C3 asks that a second \<^verbatim>\<open>install_hooks()\<close> wraps nothing again and that every
  saved original still holds the function from before the first installation. On the
  example host the second installation overwrites \<^verbatim>\<open>_original_xc_get_live_streams\<close>,
  \<^verbatim>\<open>_original_stream_xc\<close> and the recorded URL callback with the first wrappers; from
  then on a call of the catalog listing or of the live route recurses until
  \<^verbatim>\<open>RecursionError\<close>, whatever the recursion limit, and \<^verbatim>\<open>uninstall_hooks()\<close> puts a
  wrapper back instead of the host's function. Only the resolver patch is guarded.
\<close>

theorem second_install_rewraps:
  "original_xc_get_live_streams
     (snd (install_hooks (snd (install_hooks (host_state example_urlpatterns)))))
     = Some (Patched_xc_get_live_streams 0)
   \<and> original_stream_xc
     (snd (install_hooks (snd (install_hooks (host_state example_urlpatterns)))))
     = Some (Patched_stream_xc 1)
   \<and> original_url_callbacks
     (snd (install_hooks (snd (install_hooks (host_state example_urlpatterns)))))
     = [(0, Patched_stream_xc 1)]
   \<and> (\<forall>limit. call_chain limit
          (snd (install_hooks (snd (install_hooks (host_state example_urlpatterns)))))
          (attr_xc_get_live_streams
            (snd (install_hooks (snd (install_hooks (host_state example_urlpatterns))))))
        = Inl RecursionError)
   \<and> (\<forall>limit. call_chain limit
          (snd (install_hooks (snd (install_hooks (host_state example_urlpatterns)))))
          (attr_stream_xc
            (snd (install_hooks (snd (install_hooks (host_state example_urlpatterns))))))
        = Inl RecursionError)
   \<and> attr_xc_get_live_streams
        (uninstall_hooks
          (snd (install_hooks (snd (install_hooks (host_state example_urlpatterns))))))
     = Patched_xc_get_live_streams 0"
  by (simp add: second_install xc_wrapper_calls_itself stream_xc_wrapper_calls_itself
      uninstall_hooks_def restore_xc_get_live_streams_def restore_stream_xc_def
      restore_url_resolver_def)

end
